theory Spec2Isabelle
  imports Main
begin

section \<open>Bytes\<close>

text \<open>
  Go strings are byte sequences; they are modelled as \<open>string\<close> (a list of 8-bit
  characters). The byte classes below are those the standard library tests for.
\<close>

definition byte :: "char \<Rightarrow> nat" where
  "byte c = of_char c"

definition dquote :: char where
  "dquote = CHR 0x22"

definition bslash :: char where
  "bslash = CHR 0x5C"

definition isDigit :: "char \<Rightarrow> bool" where
  "isDigit c = (48 \<le> byte c \<and> byte c \<le> 57)"

definition isLower :: "char \<Rightarrow> bool" where
  "isLower c = (97 \<le> byte c \<and> byte c \<le> 122)"

definition isUpper :: "char \<Rightarrow> bool" where
  "isUpper c = (65 \<le> byte c \<and> byte c \<le> 90)"

definition isAlnum :: "char \<Rightarrow> bool" where
  "isAlnum c = (isLower c \<or> isUpper c \<or> isDigit c)"

definition ishex :: "char \<Rightarrow> bool" where
  "ishex c = (isDigit c \<or> (97 \<le> byte c \<and> byte c \<le> 102) \<or> (65 \<le> byte c \<and> byte c \<le> 70))"

definition unhex :: "char \<Rightarrow> nat" where
  "unhex c = (if isDigit c then byte c - 48
              else if 97 \<le> byte c \<and> byte c \<le> 102 then byte c - 97 + 10
              else if 65 \<le> byte c \<and> byte c \<le> 70 then byte c - 65 + 10
              else 0)"

definition toLower :: "char \<Rightarrow> char" where
  "toLower c = (if isUpper c then char_of (byte c + 32) else c)"

definition toUpper :: "char \<Rightarrow> char" where
  "toUpper c = (if isLower c then char_of (byte c - 32) else c)"

section \<open>JSON text: the scanner of encoding/json\<close>

text \<open>
  A JSON value as the decoder sees it: the syntax tree of the text, with string and
  number literals kept as they are written (strings are unquoted only when they are
  stored, as \<open>literalStore\<close> does).
\<close>

datatype json =
    JNull
  | JBool bool
  | JNumber string
  | JString string
  | JArray "json list"
  | JObject "(string \<times> json) list"

datatype 'a scan = Scanned 'a string | SyntaxErr | EndOfInput

definition isSpace :: "char \<Rightarrow> bool" where
  "isSpace c = (c = CHR '' '' \<or> c = CHR 0x09 \<or> c = CHR 0x0D \<or> c = CHR 0x0A)"

definition skip_ws :: "string \<Rightarrow> string" where
  "skip_ws s = dropWhile isSpace s"

definition scan_map :: "('a \<Rightarrow> 'b) \<Rightarrow> 'a scan \<Rightarrow> 'b scan" where
  "scan_map f r = (case r of Scanned x rest \<Rightarrow> Scanned (f x) rest
                   | SyntaxErr \<Rightarrow> SyntaxErr | EndOfInput \<Rightarrow> EndOfInput)"

text \<open>
  \<open>scan_string\<close> reads a string literal after its opening quote (states
  \<open>stateInString\<close>, \<open>stateInStringEsc\<close>, \<open>stateInStringEscU...\<close>) and returns the
  bytes between the quotes, escapes unprocessed.
\<close>

fun scan_string :: "string \<Rightarrow> string scan" where
  "scan_string [] = EndOfInput"
| "scan_string (c # cs) =
     (if c = dquote then Scanned [] cs
      else if c = bslash then
        (case cs of
           [] \<Rightarrow> EndOfInput
         | e # es \<Rightarrow>
             if e \<in> set ''bfnrt/'' \<or> e = bslash \<or> e = dquote
             then scan_map (\<lambda>r. c # e # r) (scan_string es)
             else if e = CHR ''u'' then
               (if \<not> list_all ishex (take 4 es) then SyntaxErr
                else if length es < 4 then EndOfInput
                else scan_map (\<lambda>r. c # e # take 4 es @ r) (scan_string (drop 4 es)))
             else SyntaxErr)
      else if byte c < 32 then SyntaxErr
      else scan_map (\<lambda>r. c # r) (scan_string cs))"

text \<open>The rest of a literal \<open>true\<close>, \<open>false\<close> or \<open>null\<close>.\<close>

fun scan_lit :: "string \<Rightarrow> string \<Rightarrow> unit scan" where
  "scan_lit [] s = Scanned () s"
| "scan_lit (e # es) [] = EndOfInput"
| "scan_lit (e # es) (c # cs) = (if c = e then scan_lit es cs else SyntaxErr)"

text \<open>
  Numbers (states \<open>stateNeg\<close>, \<open>state0\<close>, \<open>state1\<close>, \<open>stateDot\<close>, \<open>stateDot0\<close>,
  \<open>stateE\<close>, \<open>stateESign\<close>, \<open>stateE0\<close>). The byte after a number is not consumed.
\<close>

definition scan_digits1 :: "string \<Rightarrow> string scan" where
  "scan_digits1 s =
     (case s of
        [] \<Rightarrow> EndOfInput
      | c # cs \<Rightarrow> if isDigit c then Scanned (takeWhile isDigit s) (dropWhile isDigit s)
                  else SyntaxErr)"

definition scan_exp :: "string \<Rightarrow> string scan" where
  "scan_exp s =
     (case s of
        [] \<Rightarrow> Scanned [] s
      | c # cs \<Rightarrow>
          if c = CHR ''e'' \<or> c = CHR ''E'' then
            (case cs of
               [] \<Rightarrow> EndOfInput
             | g # gs \<Rightarrow>
                 if g = CHR ''+'' \<or> g = CHR ''-''
                 then scan_map (\<lambda>ds. c # g # ds) (scan_digits1 gs)
                 else scan_map (\<lambda>ds. c # ds) (scan_digits1 cs))
          else Scanned [] s)"

definition scan_frac :: "string \<Rightarrow> string scan" where
  "scan_frac s =
     (case s of
        [] \<Rightarrow> Scanned [] s
      | c # cs \<Rightarrow>
          if c = CHR ''.'' then
            (case scan_digits1 cs of
               Scanned ds r \<Rightarrow> scan_map (\<lambda>e. c # ds @ e) (scan_exp r)
             | SyntaxErr \<Rightarrow> SyntaxErr
             | EndOfInput \<Rightarrow> EndOfInput)
          else scan_exp s)"

definition scan_int :: "string \<Rightarrow> string scan" where
  "scan_int s =
     (case s of
        [] \<Rightarrow> EndOfInput
      | c # cs \<Rightarrow>
          if c = CHR ''0'' then scan_map (\<lambda>r. c # r) (scan_frac cs)
          else if isDigit c then
            scan_map (\<lambda>r. takeWhile isDigit s @ r) (scan_frac (dropWhile isDigit s))
          else SyntaxErr)"

definition scan_number :: "string \<Rightarrow> string scan" where
  "scan_number s =
     (case s of
        [] \<Rightarrow> EndOfInput
      | c # cs \<Rightarrow> if c = CHR ''-'' then scan_map (\<lambda>r. c # r) (scan_int cs) else scan_int s)"

text \<open>
  Values. The scanner refuses more than \<open>maxNestingDepth\<close> open brackets. The first
  argument bounds the number of nested calls; \<open>Suc (2 * length s)\<close> is enough, since
  a value and the list of elements or members inside it make two calls and read one
  byte at least.
\<close>

definition maxNestingDepth :: nat where
  "maxNestingDepth = 10000"

definition scan_bind :: "'a scan \<Rightarrow> ('a \<Rightarrow> string \<Rightarrow> 'b scan) \<Rightarrow> 'b scan" where
  "scan_bind r f = (case r of Scanned x rest \<Rightarrow> f x rest
                    | SyntaxErr \<Rightarrow> SyntaxErr | EndOfInput \<Rightarrow> EndOfInput)"

lemma scan_bind_cong [fundef_cong]:
  "r = r' \<Longrightarrow> (\<And>x rest. r' = Scanned x rest \<Longrightarrow> f x rest = f' x rest)
     \<Longrightarrow> scan_bind r f = scan_bind r' f'"
  by (cases r') (simp_all add: scan_bind_def)

text \<open>The next byte that is not white space.\<close>

definition next_byte :: "string \<Rightarrow> char scan" where
  "next_byte s = (case skip_ws s of [] \<Rightarrow> EndOfInput | c # cs \<Rightarrow> Scanned c cs)"

text \<open>A string, a number or \<open>true\<close>, \<open>false\<close>, \<open>null\<close>, from its first byte.\<close>

definition scan_literal :: "char \<Rightarrow> string \<Rightarrow> json scan" where
  "scan_literal c cs =
     (if c = dquote then scan_map JString (scan_string cs)
      else if c = CHR ''-'' \<or> isDigit c then scan_map JNumber (scan_number (c # cs))
      else if c = CHR ''t'' then scan_map (\<lambda>_. JBool True) (scan_lit ''rue'' cs)
      else if c = CHR ''f'' then scan_map (\<lambda>_. JBool False) (scan_lit ''alse'' cs)
      else if c = CHR ''n'' then scan_map (\<lambda>_. JNull) (scan_lit ''ull'' cs)
      else SyntaxErr)"

text \<open>An object key with its colon.\<close>

definition scan_key :: "string \<Rightarrow> string scan" where
  "scan_key s =
     scan_bind (next_byte s) (\<lambda>c cs.
       if c \<noteq> dquote then SyntaxErr
       else scan_bind (scan_string cs) (\<lambda>k r.
         scan_bind (next_byte r) (\<lambda>c1 r1.
           if c1 \<noteq> CHR '':'' then SyntaxErr else Scanned k r1)))"

function (sequential) scan_value :: "nat \<Rightarrow> nat \<Rightarrow> string \<Rightarrow> json scan"
  and scan_elems :: "nat \<Rightarrow> nat \<Rightarrow> json list \<Rightarrow> string \<Rightarrow> json scan"
  and scan_members :: "nat \<Rightarrow> nat \<Rightarrow> (string \<times> json) list \<Rightarrow> string \<Rightarrow> json scan"
where
  "scan_value 0 d s = SyntaxErr"
| "scan_value (Suc n) d s =
     scan_bind (next_byte s) (\<lambda>c cs.
       if c = CHR ''{'' then
         (if maxNestingDepth \<le> d then SyntaxErr
          else scan_bind (next_byte cs) (\<lambda>c' cs'.
                 if c' = CHR ''}'' then Scanned (JObject []) cs'
                 else scan_members n (Suc d) [] (c' # cs')))
       else if c = CHR ''['' then
         (if maxNestingDepth \<le> d then SyntaxErr
          else scan_bind (next_byte cs) (\<lambda>c' cs'.
                 if c' = CHR '']'' then Scanned (JArray []) cs'
                 else scan_elems n (Suc d) [] (c' # cs')))
       else scan_literal c cs)"
| "scan_elems 0 d acc s = SyntaxErr"
| "scan_elems (Suc n) d acc s =
     scan_bind (scan_value n d s) (\<lambda>v r.
       scan_bind (next_byte r) (\<lambda>c cs.
         if c = CHR '','' then scan_elems n d (acc @ [v]) cs
         else if c = CHR '']'' then Scanned (JArray (acc @ [v])) cs
         else SyntaxErr))"
| "scan_members 0 d acc s = SyntaxErr"
| "scan_members (Suc n) d acc s =
     scan_bind (scan_key s) (\<lambda>k r1.
       scan_bind (scan_value n d r1) (\<lambda>v r2.
         scan_bind (next_byte r2) (\<lambda>c2 r3.
           if c2 = CHR '','' then scan_members n d (acc @ [(k, v)]) r3
           else if c2 = CHR ''}'' then Scanned (JObject (acc @ [(k, v)])) r3
           else SyntaxErr)))"
  by pat_completeness auto

termination
  by (relation "measure (\<lambda>x. case x of Inl (n, d, s) \<Rightarrow> n
                                  | Inr (Inl (n, d, acc, s)) \<Rightarrow> n
                                  | Inr (Inr (n, d, acc, s)) \<Rightarrow> n)") auto

section \<open>UTF-8 and string literals\<close>

text \<open>
  \<open>utf8_len s\<close> is the width of the well-formed UTF-8 sequence at the front of \<open>s\<close>,
  as \<open>utf8.DecodeRune\<close> accepts it, and 0 where \<open>DecodeRune\<close> returns \<open>RuneError\<close>
  with width 1. \<open>acceptRange\<close> gives, for a leading byte, the width of its sequence and
  the range of its second byte (the tables \<open>first\<close> and \<open>acceptRanges\<close>).
\<close>

definition isCont :: "char \<Rightarrow> bool" where
  "isCont c = (128 \<le> byte c \<and> byte c \<le> 191)"

definition acceptRange :: "char \<Rightarrow> (nat \<times> nat \<times> nat) option" where
  "acceptRange c0 =
     (let b = byte c0 in
      if 194 \<le> b \<and> b \<le> 223 then Some (2, 128, 191)
      else if b = 224 then Some (3, 160, 191)
      else if b = 237 then Some (3, 128, 159)
      else if 225 \<le> b \<and> b \<le> 239 then Some (3, 128, 191)
      else if b = 240 then Some (4, 144, 191)
      else if b = 244 then Some (4, 128, 143)
      else if 241 \<le> b \<and> b \<le> 243 then Some (4, 128, 191)
      else None)"

definition utf8_len :: "string \<Rightarrow> nat" where
  "utf8_len s =
     (case s of
        [] \<Rightarrow> 0
      | c0 # r \<Rightarrow>
          if byte c0 < 128 then 1
          else case acceptRange c0 of
                 None \<Rightarrow> 0
               | Some (w, lo, hi) \<Rightarrow>
                   if w - 1 \<le> length r \<and> lo \<le> byte (hd r) \<and> byte (hd r) \<le> hi
                      \<and> list_all isCont (take (w - 2) (tl r))
                   then w else 0)"

definition RuneError :: nat where
  "RuneError = 0xFFFD"

text \<open>\<open>utf8.EncodeRune\<close>: surrogates and values above U+10FFFF encode \<open>RuneError\<close>.\<close>

definition EncodeRune :: "nat \<Rightarrow> string" where
  "EncodeRune r =
     (if r < 0x80 then [char_of r]
      else if r < 0x800 then [char_of (0xC0 + r div 64), char_of (0x80 + r mod 64)]
      else if (0xD800 \<le> r \<and> r \<le> 0xDFFF) \<or> 0x10FFFF < r then [CHR 0xEF, CHR 0xBF, CHR 0xBD]
      else if r < 0x10000 then
        [char_of (0xE0 + r div 4096), char_of (0x80 + (r div 64) mod 64), char_of (0x80 + r mod 64)]
      else
        [char_of (0xF0 + r div 262144), char_of (0x80 + (r div 4096) mod 64),
         char_of (0x80 + (r div 64) mod 64), char_of (0x80 + r mod 64)])"

definition hex4 :: "string \<Rightarrow> nat" where
  "hex4 s = foldl (\<lambda>a c. 16 * a + unhex c) 0 (take 4 s)"

text \<open>
  \<open>getu4\<close> reads \<open>\\uXXXX\<close> at the front of \<open>s\<close>; \<open>utf16_DecodeRune\<close> joins a
  surrogate pair.
\<close>

definition getu4 :: "string \<Rightarrow> nat option" where
  "getu4 s =
     (if length s < 6 \<or> s ! 0 \<noteq> bslash \<or> s ! 1 \<noteq> CHR ''u'' then None
      else if list_all ishex (take 4 (drop 2 s)) then Some (hex4 (drop 2 s)) else None)"

definition IsSurrogate :: "nat \<Rightarrow> bool" where
  "IsSurrogate r = (0xD800 \<le> r \<and> r < 0xE000)"

definition utf16_DecodeRune :: "nat \<Rightarrow> nat option \<Rightarrow> nat" where
  "utf16_DecodeRune r1 r2 =
     (case r2 of
        None \<Rightarrow> RuneError
      | Some r2' \<Rightarrow>
          if 0xD800 \<le> r1 \<and> r1 < 0xDC00 \<and> 0xDC00 \<le> r2' \<and> r2' < 0xE000
          then (r1 - 0xD800) * 1024 + (r2' - 0xDC00) + 0x10000
          else RuneError)"

definition unescape_char :: "char \<Rightarrow> char" where
  "unescape_char e =
     (if e = CHR ''b'' then CHR 0x08
      else if e = CHR ''f'' then CHR 0x0C
      else if e = CHR ''n'' then CHR 0x0A
      else if e = CHR ''r'' then CHR 0x0D
      else if e = CHR ''t'' then CHR 0x09
      else e)"

text \<open>
  \<open>unquote\<close> is \<open>unquoteBytes\<close> on the inside of a literal the scanner has accepted:
  escapes are replaced, and every byte that is not part of well-formed UTF-8 becomes
  U+FFFD.
\<close>

fun unquote :: "string \<Rightarrow> string" where
  "unquote [] = []"
| "unquote (c # cs) =
     (if c = bslash then
        (case cs of
           [] \<Rightarrow> []
         | e # es \<Rightarrow>
             if e = CHR ''u'' then
               (let rr = hex4 es; rest = drop 4 es in
                if IsSurrogate rr then
                  (let dec = utf16_DecodeRune rr (getu4 rest) in
                   if dec \<noteq> RuneError then EncodeRune dec @ unquote (drop 6 rest)
                   else EncodeRune RuneError @ unquote rest)
                else EncodeRune rr @ unquote rest)
             else unescape_char e # unquote es)
      else if byte c < 128 then c # unquote cs
      else
        (let n = utf8_len (c # cs) in
         if n = 0 then EncodeRune RuneError @ unquote cs
         else c # take (n - 1) cs @ unquote (drop (n - 1) cs)))"

text \<open>\<open>utf8.ValidString\<close>.\<close>

fun valid_utf8 :: "string \<Rightarrow> bool" where
  "valid_utf8 [] = True"
| "valid_utf8 (c # cs) =
     (if byte c < 128 then valid_utf8 cs
      else utf8_len (c # cs) \<noteq> 0 \<and> valid_utf8 (drop (utf8_len (c # cs) - 1) cs))"

section \<open>Go values, as encoding/json sees them through reflection\<close>

text \<open>
  The repository's records are declared with JSON tags, and all reading and writing of
  them is done by encoding/json, which walks the declarations by reflection. The model
  does the same: a type is the list of its fields (Go name, JSON tag, type), a value
  carries its fields by Go name. \<open>TTimePtr\<close> is \<open>*time.Time\<close>; \<open>TSliceOf n\<close> is a slice
  of the struct named \<open>n\<close>; \<open>int\<close> is 64 bits wide.
\<close>

datatype gtype =
    TInt
  | TString
  | TBool
  | TTimePtr
  | TStruct "gfield list"
  | TSliceOf string
and gfield = Field (GoName: string) (Tag: string) (Typ: gtype)

text \<open>
  \<open>VNil\<close> is the nil pointer and the nil slice. A slice \<open>VSlice xs ys\<close> has the elements
  \<open>xs\<close>; \<open>ys\<close> are the elements of its backing array between its length and its
  capacity, which the decoder uses again when it grows the slice. \<open>'t\<close> is the type of
  \<open>time.Time\<close> values.
\<close>

datatype 't gval =
    VInt int
  | VString string
  | VBool bool
  | VNil
  | VTimePtr 't
  | VStruct "(string \<times> 't gval) list"
  | VSlice "'t gval list" "'t gval list"

fun zero_value :: "gtype \<Rightarrow> 't gval"
  and zero_fields :: "gfield list \<Rightarrow> (string \<times> 't gval) list"
  and zero_field :: "gfield \<Rightarrow> (string \<times> 't gval)"
where
  "zero_value TInt = VInt 0"
| "zero_value TString = VString []"
| "zero_value TBool = VBool False"
| "zero_value TTimePtr = VNil"
| "zero_value (TSliceOf n) = VNil"
| "zero_value (TStruct fs) = VStruct (zero_fields fs)"
| "zero_fields [] = []"
| "zero_fields (f # fs) = zero_field f # zero_fields fs"
| "zero_field (Field n t ty) = (n, zero_value ty)"

definition get_field :: "'t gval \<Rightarrow> string \<Rightarrow> 't gval option" where
  "get_field v n = (case v of VStruct vals \<Rightarrow> map_of vals n | _ \<Rightarrow> None)"

definition set_field :: "string \<Rightarrow> 't gval \<Rightarrow> (string \<times> 't gval) list \<Rightarrow> (string \<times> 't gval) list" where
  "set_field n v vals = map (\<lambda>(m, x). if m = n then (m, v) else (m, x)) vals"

section \<open>The records of the package\<close>

text \<open>
  The struct declarations of \<open>cloud.go\<close>, field by field and in their order. The six
  wrappers that only embed \<open>Activity\<close> (\<open>BikeActivity\<close>, \<open>RunActivity\<close>, ...) are never
  read or written and are left out.
\<close>

definition Summaries_type :: gtype where
  "Summaries_type = TStruct
     [Field ''Summaries'' ''summaries'' (TSliceOf ''Summary'')]"

definition CaloriesBurnedSummary_type :: gtype where
  "CaloriesBurnedSummary_type = TStruct
     [Field ''Period'' ''period'' TString,
      Field ''TotalCalories'' ''totalCalories'' TInt]"

definition HeartRateSummary_type :: gtype where
  "HeartRateSummary_type = TStruct
     [Field ''Period'' ''period'' TString,
      Field ''AverageHeartRate'' ''averageHeartRate'' TInt,
      Field ''PeakHeartRate'' ''peakHeartRate'' TInt,
      Field ''LowestHeartRate'' ''lowestHeartRate'' TInt]"

definition DistanceSummary_type :: gtype where
  "DistanceSummary_type = TStruct
     [Field ''Period'' ''period'' TString,
      Field ''TotalDistance'' ''totalDistance'' TInt,
      Field ''TotalDistanceOnFoot'' ''totalDistanceOnFoot'' TInt,
      Field ''ActualDistance'' ''actualDistance'' TInt,
      Field ''ElevationGain'' ''elevationGain'' TInt,
      Field ''ElevationLoss'' ''elevationLoss'' TInt,
      Field ''MaxElevation'' ''maxElevation'' TInt,
      Field ''MinElevation'' ''minElevation'' TInt,
      Field ''WaypointDistance'' ''waypointDistance'' TInt,
      Field ''Speed'' ''speed'' TInt,
      Field ''Pace'' ''pace'' TInt,
      Field ''OverallPace'' ''overallPace'' TInt]"

definition Summary_type :: gtype where
  "Summary_type = TStruct
     [Field ''ActiveHours'' ''activeHours'' TInt,
      Field ''UVExposure'' ''uvExposure'' TString,
      Field ''CaloriesBurnedSummary'' ''CaloriesBurnedSummary'' CaloriesBurnedSummary_type,
      Field ''HeartRateSummary'' ''HeartRateSummary'' HeartRateSummary_type,
      Field ''DistanceSummary'' ''distanceSummary'' DistanceSummary_type,
      Field ''FloorsClimbed'' ''floorsClimbed'' TInt,
      Field ''StepsTaken'' ''stepsTaken'' TInt,
      Field ''Duration'' ''duration'' TString,
      Field ''Period'' ''period'' TString,
      Field ''IsTransitDay'' ''isTransitDay'' TBool,
      Field ''ParentDay'' ''parentDay'' TTimePtr,
      Field ''EndTime'' ''endTime'' TTimePtr,
      Field ''StartTime'' ''startTime'' TTimePtr,
      Field ''UserID'' ''userId'' TString]"

definition Profile_type :: gtype where
  "Profile_type = TStruct
     [Field ''FirstName'' ''firstString'' TString,
      Field ''MiddleName'' ''middleName'' TString,
      Field ''LastName'' ''lastName'' TString,
      Field ''Birthdate'' ''birthdate'' TTimePtr,
      Field ''PostalCode'' ''postalCode'' TString,
      Field ''Gender'' ''gender'' TString,
      Field ''Height'' ''height'' TInt,
      Field ''Weight'' ''weight'' TInt,
      Field ''PreferredLocale'' ''preferredLocale'' TString,
      Field ''LastUpdateTime'' ''lastUpdateTime'' TTimePtr]"

definition Device_type :: gtype where
  "Device_type = TStruct
     [Field ''ID'' ''id'' TString,
      Field ''DisplayName'' ''displayName'' TString,
      Field ''LastSuccessfulSync'' ''lastSuccessfulSync'' TTimePtr,
      Field ''DeviceFamily'' ''deviceFamily'' TString,
      Field ''HardwareVersion'' ''hardwareVersion'' TString,
      Field ''SoftwareVersion'' ''softwareVersion'' TString,
      Field ''ModelName'' ''modelName'' TString,
      Field ''Manufacturer'' ''manufacturer'' TString,
      Field ''DeviceStatus'' ''deviceStatus'' TString,
      Field ''CreatedDate'' ''createdDate'' TTimePtr]"

definition DeviceProfiles_type :: gtype where
  "DeviceProfiles_type = TStruct
     [Field ''Devices'' ''deviceProfiles'' (TSliceOf ''Device''),
      Field ''ItemCount'' ''itemCount'' TInt]"

definition Activities_type :: gtype where
  "Activities_type = TStruct
     [Field ''SleepActivities'' ''sleepActivities'' (TSliceOf ''Activity''),
      Field ''RunActivities'' ''runActivities'' (TSliceOf ''Activity''),
      Field ''GuidedWorkoutActivites'' ''guidedWorkoutActivities'' (TSliceOf ''Activity''),
      Field ''GolfActivities'' ''golfActivities'' (TSliceOf ''Activity''),
      Field ''FreePlayActivities'' ''freePlayActivities'' (TSliceOf ''Activity''),
      Field ''BikeActivities'' ''bikeActivities'' (TSliceOf ''Activity''),
      Field ''ItemCount'' ''itemCount'' TInt,
      Field ''NextPage'' ''nextPage'' TString]"

definition HeartRateZones_type :: gtype where
  "HeartRateZones_type = TStruct
     [Field ''UnderHealthyHeart'' ''underHealthyHeart'' TInt,
      Field ''UnderAerobic'' ''underAerobic'' TInt,
      Field ''Aerobic'' ''aerobic'' TInt,
      Field ''Anaerobic'' ''anaerobic'' TInt,
      Field ''FitnessZone'' ''fitnessZone'' TInt,
      Field ''HealthyHeart'' ''healthyHeart'' TInt,
      Field ''Redline'' ''redline'' TInt,
      Field ''OverRedline'' ''overRedline'' TInt]"

definition PerformanceSummary_type :: gtype where
  "PerformanceSummary_type = TStruct
     [Field ''FinishHeartRate'' ''finishHeartRate'' TInt,
      Field ''RecoveryHeartRateAt1Minute'' ''recoveryHeartRateAt1Minute'' TInt,
      Field ''RecoveryHeartRateAt2Minutes'' ''recoveryHeartRateAt2Minutes'' TInt,
      Field ''HeartRateZones'' ''heartRateZones'' HeartRateZones_type]"

definition Activity_type :: gtype where
  "Activity_type = TStruct
     [Field ''AwakeDuration'' ''awakeDuration'' TString,
      Field ''SleepDuration'' ''sleepDuration'' TString,
      Field ''NumberOfWakeups'' ''numberOfWakeups'' TInt,
      Field ''FallAsleepDuration'' ''fallAsleepDuration'' TString,
      Field ''SleepEfficiencyPercentage'' ''sleepEfficiencyPercentage'' TInt,
      Field ''TotalRestlessSleepDuration'' ''totalRestlessSleepDuration'' TString,
      Field ''TotalRestfulSleepDuration'' ''totalRestlessSleepDuration'' TString,
      Field ''RestingHeartRate'' ''restingHeartRate'' TInt,
      Field ''FallAsleepTime'' ''fallAsleepTime'' TTimePtr,
      Field ''WakeupTime'' ''wakeupTime'' TTimePtr,
      Field ''RoundsPerformed'' ''roundsPerformed'' TInt,
      Field ''RepetitionsPerformed'' ''repetitionsPerformed'' TInt,
      Field ''WorkoutPlanID'' ''workoutPlanId'' TString,
      Field ''PerformanceSummary'' ''performanceSummary'' PerformanceSummary_type,
      Field ''ActivityType'' ''activityType'' TString,
      Field ''ActivitySegment'' ''activitySegments'' (TSliceOf ''ActivitySegment''),
      Field ''ID'' ''id'' TString,
      Field ''UserID'' ''userId'' TString,
      Field ''DeviceID'' ''deviceId'' TString,
      Field ''StartTime'' ''startTime'' TTimePtr,
      Field ''EndTime'' ''endTime'' TTimePtr,
      Field ''DayID'' ''dayId'' TTimePtr,
      Field ''CreatedTime'' ''createdTime'' TTimePtr,
      Field ''CreatedBy'' ''createdBy'' TString,
      Field ''Name'' ''name'' TString,
      Field ''Duration'' ''duration'' TString,
      Field ''MinuteSummaries'' ''minuteSummaries'' (TSliceOf ''Summary''),
      Field ''HeartRateSummary'' ''heartRateSummary'' HeartRateSummary_type,
      Field ''CaloriesBurnedSummary'' ''caloriesBurnedSummary'' CaloriesBurnedSummary_type,
      Field ''UVExposure'' ''uvExposure'' TString,
      Field ''DistanceSummary'' ''distanceSummary'' DistanceSummary_type,
      Field ''PausedDuration'' ''pausedDuration'' TString,
      Field ''SplitDistance'' ''splitDistance'' TInt,
      Field ''MapPoints'' ''mapPoints'' (TSliceOf ''MapPoint''),
      Field ''TotalStepCount'' ''totalStepCount'' TInt,
      Field ''TotalDistanceWalked'' ''totalDistanceWalked'' TInt,
      Field ''ParOrBetterCount'' ''parOrBetterCount'' TInt,
      Field ''LongestDriveDistance'' ''longestDriveDistance'' TInt,
      Field ''LongestStrokeDistance'' ''longestStrokeDistance'' TInt,
      Field ''ChildActivities'' ''childActivities'' (TSliceOf ''Activity'')]"

definition ActivitySegment_type :: gtype where
  "ActivitySegment_type = TStruct
     [Field ''SleepTime'' ''sleepTime'' TInt,
      Field ''DayID'' ''dayId'' TTimePtr,
      Field ''SleepType'' ''sleepType'' TString,
      Field ''SegmentID'' ''segmentId'' TInt,
      Field ''StartTime'' ''startTime'' TTimePtr,
      Field ''EndTime'' ''endTime'' TTimePtr,
      Field ''Duration'' ''duration'' TString,
      Field ''HeartRateSummary'' ''heartRateSummary'' HeartRateSummary_type,
      Field ''CaloriesBurnedSummary'' ''caloriesBurnedSummary'' CaloriesBurnedSummary_type,
      Field ''SegmentType'' ''segmentType'' TString,
      Field ''DistanceSummary'' ''distanceSummary'' DistanceSummary_type,
      Field ''PausedDuration'' ''pausedDuration'' TString,
      Field ''HeartRateZones'' ''heartRateZones'' HeartRateZones_type,
      Field ''SplitDistance'' ''splitDistance'' TInt,
      Field ''CircuitOrdinal'' ''circuitOrdinal'' TInt,
      Field ''CircuitType'' ''circuitType'' TInt,
      Field ''HoleNumber'' ''holeNumber'' TInt,
      Field ''StepCount'' ''stepCount'' TInt,
      Field ''DistanceWalked'' ''distanceWalked'' TInt]"

definition Location_type :: gtype where
  "Location_type = TStruct
     [Field ''SpeedOverGround'' ''speedOverGround'' TInt,
      Field ''Latitude'' ''latitude'' TInt,
      Field ''Longitude'' ''longitude'' TInt,
      Field ''ElevationFromMeanSeaLevel'' ''elevationFromMeanSeaLevel'' TInt,
      Field ''EstimatedHorizontalError'' ''estimatedHorizontalError'' TInt,
      Field ''EstimatedVerticalError'' ''estimatedVerticalError'' TInt]"

definition MapPoint_type :: gtype where
  "MapPoint_type = TStruct
     [Field ''SecondsSinceStart'' ''secondsSinceStart'' TInt,
      Field ''MapPointType'' ''mapPointType'' TString,
      Field ''Ordinal'' ''ordinal'' TInt,
      Field ''ActualDistance'' ''actualDistance'' TInt,
      Field ''TotalDistance'' ''totalDistance'' TInt,
      Field ''HeartRate'' ''heartRate'' TInt,
      Field ''Pace'' ''pace'' TInt,
      Field ''ScaledPace'' ''scaledPace'' TInt,
      Field ''Speed'' ''speed'' TInt,
      Field ''Location'' ''location'' Location_type,
      Field ''IsPaused'' ''isPaused'' TBool,
      Field ''IsResume'' ''isResume'' TBool]"

text \<open>The struct types that occur as slice elements, by name.\<close>

definition named_type :: "string \<Rightarrow> gtype" where
  "named_type n =
     (if n = ''Summary'' then Summary_type
      else if n = ''Device'' then Device_type
      else if n = ''Activity'' then Activity_type
      else if n = ''ActivitySegment'' then ActivitySegment_type
      else if n = ''MapPoint'' then MapPoint_type
      else TStruct [])"

section \<open>Errors and the parts of the standard library taken as given\<close>

text \<open>
  The errors that occur, by their Go types. An error made by \<open>errors.New\<close> is its
  text. Two errors of net/url made by \<open>fmt.Errorf\<close> are kept by what they are made
  from rather than as text: \<open>InvalidPort p\<close> is
  \<open>fmt.Errorf("invalid port %q after host", p)\<close>, and \<open>InvalidHost h\<close> is
  \<open>fmt.Errorf("invalid host: %w", err)\<close> for the error of \<open>netip.ParseAddr(h)\<close>.
\<close>

datatype error =
    ErrorString string
  | UrlError string string error
  | EscapeError string
  | InvalidHostError string
  | InvalidPort string
  | InvalidHost string
  | SyntaxError
  | io_EOF
  | io_ErrUnexpectedEOF
  | UnmarshalTypeError string
  | MarshalerError error
  | InvalidMethod string
  | NilPointerDereference

record response =
  StatusCode :: int
  Body :: string

text \<open>
  What the model does not define is a parameter: the zero \<open>time.Time\<close>, its
  \<open>UnmarshalJSON\<close> method (from the JSON value and the current time to an error and the
  new time), its \<open>MarshalJSON\<close> method as the encoder uses it (compacted), and two
  pieces of the text that \<open>fmt\<close> prints for a response with \<open>%#v\<close>: the Go string
  literal of its \<open>Status\<close> (\<open>strconv.Quote\<close>), and the fields that follow the
  status code, from the value of \<open>Proto\<close> to the closing brace.
\<close>

record 't golib =
  time_zero :: 't
  time_UnmarshalJSON :: "json \<Rightarrow> 't \<Rightarrow> error option \<times> 't"
  time_MarshalJSON :: "'t \<Rightarrow> error + string"
  Quote_Status :: "response \<Rightarrow> string"
  Sprintf_fields :: "response \<Rightarrow> string"

section \<open>Decoding: encoding/json into the records\<close>

text \<open>
  The fields encoding/json knows of a struct (\<open>typeFields\<close>): where several fields of
  one struct carry the same JSON name with the same standing (here: all are tagged),
  none of them is a JSON field (\<open>dominantField\<close>).
\<close>

definition json_fields :: "gfield list \<Rightarrow> gfield list" where
  "json_fields fs = filter (\<lambda>f. length (filter (\<lambda>g. Tag g = Tag f) fs) = 1) fs"

text \<open>
  Keys are matched exactly first, then up to case. \<open>foldName\<close> folds ASCII letters and
  the two runes whose simple fold is an ASCII letter (U+017F to S, U+212A to K); other
  bytes stay, so that a key with any other non-ASCII rune matches no tag of the package,
  as in Go.
\<close>

fun foldName :: "string \<Rightarrow> string" where
  "foldName [] = []"
| "foldName (c # cs) =
     (if byte c < 128 then toUpper c # foldName cs
      else if c = CHR 0xC5 \<and> take 1 cs = [CHR 0xBF] then CHR ''S'' # foldName (drop 1 cs)
      else if c = CHR 0xE2 \<and> take 2 cs = [CHR 0x84, CHR 0xAA] then CHR ''K'' # foldName (drop 2 cs)
      else c # foldName cs)"

definition find_field :: "gfield list \<Rightarrow> string \<Rightarrow> gfield option" where
  "find_field fs key =
     (case find (\<lambda>f. Tag f = key) fs of
        Some f \<Rightarrow> Some f
      | None \<Rightarrow> find (\<lambda>f. foldName (Tag f) = foldName key) fs)"

text \<open>\<open>strconv.ParseInt(s, 10, 64)\<close> on a number literal the scanner has accepted.\<close>

definition digits_val :: "string \<Rightarrow> int" where
  "digits_val s = foldl (\<lambda>a c. 10 * a + int (byte c - 48)) 0 s"

definition ParseInt64 :: "string \<Rightarrow> int option" where
  "ParseInt64 s =
     (let neg = (take 1 s = ''-'');
          ds = (if neg then drop 1 s else s)
      in if ds = [] \<or> \<not> list_all isDigit ds then None
         else let n = (if neg then - digits_val ds else digits_val ds)
              in if - (2 ^ 63) \<le> n \<and> n < 2 ^ 63 then Some n else None)"

definition saveError :: "error option \<Rightarrow> error \<Rightarrow> error option" where
  "saveError sv e = (case sv of None \<Rightarrow> Some e | Some e0 \<Rightarrow> Some e0)"

definition json_kind :: "json \<Rightarrow> string" where
  "json_kind j =
     (case j of
        JNull \<Rightarrow> ''null''
      | JBool b \<Rightarrow> ''bool''
      | JNumber s \<Rightarrow> ''number''
      | JString s \<Rightarrow> ''string''
      | JArray js \<Rightarrow> ''array''
      | JObject kvs \<Rightarrow> ''object'')"

text \<open>
  \<open>literalStore\<close>, and the refusals of \<open>object\<close> and \<open>array\<close>: a JSON value
  stored into a field that is neither a struct receiving an object nor a slice
  receiving an array. \<open>null\<close> clears pointers and slices and leaves everything else as
  it is; a value that does not fit the field is skipped and reported once decoding has
  ended (the saved error); \<open>*time.Time\<close> is allocated where it is nil and handed to
  \<open>UnmarshalJSON\<close>, whose failure stops decoding.
\<close>

definition literalStore ::
    "'t golib \<Rightarrow> json \<Rightarrow> gtype \<Rightarrow> 't gval \<Rightarrow> error option \<Rightarrow> 't gval \<times> error option \<times> error option" where
  "literalStore lib j ty v sv =
     (case ty of
        TTimePtr \<Rightarrow>
          (if j = JNull then (VNil, sv, None)
           else case time_UnmarshalJSON lib j (case v of VTimePtr t \<Rightarrow> t | _ \<Rightarrow> time_zero lib) of
                  (e, t') \<Rightarrow> (VTimePtr t', sv, e))
      | TSliceOf n \<Rightarrow>
          (if j = JNull then (VNil, sv, None)
           else (v, saveError sv (UnmarshalTypeError (json_kind j)), None))
      | TInt \<Rightarrow>
          (case j of
             JNull \<Rightarrow> (v, sv, None)
           | JNumber s \<Rightarrow>
               (case ParseInt64 s of
                  Some n \<Rightarrow> (VInt n, sv, None)
                | None \<Rightarrow> (v, saveError sv (UnmarshalTypeError (''number '' @ s)), None))
           | _ \<Rightarrow> (v, saveError sv (UnmarshalTypeError (json_kind j)), None))
      | TString \<Rightarrow>
          (case j of
             JNull \<Rightarrow> (v, sv, None)
           | JString raw \<Rightarrow> (VString (unquote raw), sv, None)
           | _ \<Rightarrow> (v, saveError sv (UnmarshalTypeError (json_kind j)), None))
      | TBool \<Rightarrow>
          (case j of
             JNull \<Rightarrow> (v, sv, None)
           | JBool b \<Rightarrow> (VBool b, sv, None)
           | _ \<Rightarrow> (v, saveError sv (UnmarshalTypeError (json_kind j)), None))
      | TStruct fs \<Rightarrow>
          (if j = JNull then (v, sv, None)
           else (v, saveError sv (UnmarshalTypeError (json_kind j)), None)))"

definition struct_vals :: "'t gval \<Rightarrow> (string \<times> 't gval) list" where
  "struct_vals v = (case v of VStruct vals \<Rightarrow> vals | _ \<Rightarrow> [])"

text \<open>The backing array of a slice: its elements, then those up to its capacity.\<close>

definition slice_store :: "'t gval \<Rightarrow> 't gval list" where
  "slice_store v = (case v of VSlice xs ys \<Rightarrow> xs @ ys | _ \<Rightarrow> [])"

definition slice_len :: "'t gval \<Rightarrow> nat" where
  "slice_len v = (case v of VSlice xs ys \<Rightarrow> length xs | _ \<Rightarrow> 0)"

definition field_or_zero :: "(string \<times> 't gval) list \<Rightarrow> gfield \<Rightarrow> 't gval" where
  "field_or_zero vals f = (case map_of vals (GoName f) of Some x \<Rightarrow> x | None \<Rightarrow> zero_value (Typ f))"

text \<open>
  \<open>decode_value lib j ty v sv\<close> stores the JSON value \<open>j\<close> into the Go value \<open>v\<close> of
  type \<open>ty\<close> (\<open>decodeState.value\<close> with \<open>object\<close> and \<open>array\<close>). It returns the new
  value, the saved error and the error that stopped decoding, if any. The value is
  returned in every case, since the destination is written in place.

  An object is stored key by key into the JSON fields of a struct; keys that match no
  field are skipped. An array is stored element by element into the backing array of a
  slice, element \<open>i\<close> into what is at index \<open>i\<close> already, or into a zero value past the
  capacity; the slice is then cut to the number of elements, and an empty array gives
  a new empty slice. When decoding stops inside element \<open>i\<close> the slice keeps the longer
  of its old length and \<open>i + 1\<close>.
\<close>

function (sequential) decode_value ::
    "'t golib \<Rightarrow> json \<Rightarrow> gtype \<Rightarrow> 't gval \<Rightarrow> error option \<Rightarrow> 't gval \<times> error option \<times> error option"
  and decode_members ::
    "'t golib \<Rightarrow> (string \<times> json) list \<Rightarrow> gfield list \<Rightarrow> (string \<times> 't gval) list \<Rightarrow> error option
       \<Rightarrow> (string \<times> 't gval) list \<times> error option \<times> error option"
  and decode_elems ::
    "'t golib \<Rightarrow> json list \<Rightarrow> gtype \<Rightarrow> 't gval list \<Rightarrow> error option
       \<Rightarrow> 't gval list \<times> 't gval list \<times> error option \<times> error option"
where
  "decode_value lib (JObject kvs) ty v sv =
     (case ty of
        TStruct fs \<Rightarrow>
          (case decode_members lib kvs (json_fields fs) (struct_vals v) sv of
             (vals', sv', ab) \<Rightarrow> (VStruct vals', sv', ab))
      | _ \<Rightarrow> literalStore lib (JObject kvs) ty v sv)"
| "decode_value lib (JArray js) ty v sv =
     (case ty of
        TSliceOf n \<Rightarrow>
          (if js = [] then (VSlice [] [], sv, None)
           else case decode_elems lib js (named_type n) (slice_store v) sv of
                  (done, rest, sv', ab) \<Rightarrow>
                    (if ab = None then (VSlice done rest, sv', ab)
                     else let k = slice_len v - length done
                          in (VSlice (done @ take k rest) (drop k rest), sv', ab)))
      | _ \<Rightarrow> literalStore lib (JArray js) ty v sv)"
| "decode_value lib JNull ty v sv = literalStore lib JNull ty v sv"
| "decode_value lib (JBool b) ty v sv = literalStore lib (JBool b) ty v sv"
| "decode_value lib (JNumber s) ty v sv = literalStore lib (JNumber s) ty v sv"
| "decode_value lib (JString s) ty v sv = literalStore lib (JString s) ty v sv"
| "decode_members lib [] fs vals sv = (vals, sv, None)"
| "decode_members lib ((rawkey, j) # kvs) fs vals sv =
     (case find_field fs (unquote rawkey) of
        None \<Rightarrow> decode_members lib kvs fs vals sv
      | Some f \<Rightarrow>
          (case decode_value lib j (Typ f) (field_or_zero vals f) sv of
             (x', sv', ab) \<Rightarrow>
               if ab = None then decode_members lib kvs fs (set_field (GoName f) x' vals) sv'
               else (set_field (GoName f) x' vals, sv', ab)))"
| "decode_elems lib [] ety store sv = ([], store, sv, None)"
| "decode_elems lib (j # js) ety store sv =
     (case decode_value lib j ety (case store of [] \<Rightarrow> zero_value ety | x # _ \<Rightarrow> x) sv of
        (x', sv', ab) \<Rightarrow>
          if ab = None then
            (case decode_elems lib js ety (tl store) sv' of
               (done, rest, sv'', ab') \<Rightarrow> (x' # done, rest, sv'', ab'))
          else ([x'], tl store, sv', ab))"
  by pat_completeness auto

termination
  by (relation "measure (\<lambda>x. case x of
                   Inl (lib, j, ty, v, sv) \<Rightarrow> size j
                 | Inr (Inl (lib, kvs, fs, vals, sv)) \<Rightarrow> size_list (size_prod (\<lambda>k. 0) size) kvs
                 | Inr (Inr (lib, js, ety, store, sv)) \<Rightarrow> size_list size js)") auto

text \<open>
  \<open>Decoder.Decode\<close> on a body read to its end: the next JSON value of the stream is
  scanned (bytes after it are left unread), then stored. An empty or blank body is
  \<open>io.EOF\<close>; a body that ends inside a value is \<open>io.ErrUnexpectedEOF\<close>.
\<close>

definition Decode :: "'t golib \<Rightarrow> string \<Rightarrow> gtype \<Rightarrow> 't gval \<Rightarrow> 't gval \<times> error option" where
  "Decode lib body ty v =
     (case scan_value (Suc (2 * length body)) 0 body of
        EndOfInput \<Rightarrow> (v, Some (if list_all isSpace body then io_EOF else io_ErrUnexpectedEOF))
      | SyntaxErr \<Rightarrow> (v, Some SyntaxError)
      | Scanned j rest \<Rightarrow>
          (case decode_value lib j ty v None of
             (v', sv, Some e) \<Rightarrow> (v', Some e)
           | (v', sv, None) \<Rightarrow> (v', sv)))"

section \<open>Encoding: the records into JSON text\<close>

function digits :: "nat \<Rightarrow> string" where
  "digits n = (if n < 10 then [char_of (48 + n)] else digits (n div 10) @ [char_of (48 + n mod 10)])"
  by pat_completeness auto

termination
  by (relation "measure (\<lambda>n. n)") auto

declare digits.simps [simp del]

definition FormatInt :: "int \<Rightarrow> string" where
  "FormatInt i = (if i < 0 then CHR ''-'' # digits (nat (- i)) else digits (nat i))"

definition lowerhex :: "nat \<Rightarrow> char" where
  "lowerhex n = (if n < 10 then char_of (48 + n) else char_of (87 + n))"

definition upperhex :: "nat \<Rightarrow> char" where
  "upperhex n = (if n < 10 then char_of (48 + n) else char_of (55 + n))"

text \<open>
  \<open>htmlSafeSet\<close>: the ASCII bytes an encoder with \<open>escapeHTML\<close> (the default of
  \<open>NewEncoder\<close>) writes as they are.
\<close>

definition htmlSafe :: "char \<Rightarrow> bool" where
  "htmlSafe c = (32 \<le> byte c \<and> byte c < 128 \<and> c \<noteq> dquote \<and> c \<noteq> bslash
                 \<and> c \<noteq> CHR ''<'' \<and> c \<noteq> CHR ''>'' \<and> c \<noteq> CHR ''&'')"

definition escape_byte :: "char \<Rightarrow> string" where
  "escape_byte c =
     (if c = bslash \<or> c = dquote then [bslash, c]
      else if c = CHR 0x08 then [bslash, CHR ''b'']
      else if c = CHR 0x0C then [bslash, CHR ''f'']
      else if c = CHR 0x0A then [bslash, CHR ''n'']
      else if c = CHR 0x0D then [bslash, CHR ''r'']
      else if c = CHR 0x09 then [bslash, CHR ''t'']
      else [bslash, CHR ''u'', CHR ''0'', CHR ''0'', lowerhex (byte c div 16), lowerhex (byte c mod 16)])"

text \<open>
  \<open>appendString\<close> between the quotes: bytes that are not well-formed UTF-8 are written
  as \<open>\\ufffd\<close>, U+2028 and U+2029 as escapes.
\<close>

fun quote_bytes :: "string \<Rightarrow> string" where
  "quote_bytes [] = []"
| "quote_bytes (c # cs) =
     (if byte c < 128 then
        (if htmlSafe c then c # quote_bytes cs else escape_byte c @ quote_bytes cs)
      else
        (let n = utf8_len (c # cs) in
         if n = 0 then bslash # ''ufffd'' @ quote_bytes cs
         else if c # take 2 cs = [CHR 0xE2, CHR 0x80, CHR 0xA8] then bslash # ''u2028'' @ quote_bytes (drop 2 cs)
         else if c # take 2 cs = [CHR 0xE2, CHR 0x80, CHR 0xA9] then bslash # ''u2029'' @ quote_bytes (drop 2 cs)
         else c # take (n - 1) cs @ quote_bytes (drop (n - 1) cs)))"

definition quote :: "string \<Rightarrow> string" where
  "quote s = dquote # quote_bytes s @ [dquote]"

fun join :: "string list \<Rightarrow> string" where
  "join [] = []"
| "join [x] = x"
| "join (x # y # ys) = x @ CHR '','' # join (y # ys)"

definition sum_bind :: "'e + 'a \<Rightarrow> ('a \<Rightarrow> 'e + 'b) \<Rightarrow> 'e + 'b" where
  "sum_bind r f = (case r of Inl e \<Rightarrow> Inl e | Inr x \<Rightarrow> f x)"

lemma sum_bind_cong [fundef_cong]:
  "r = r' \<Longrightarrow> (\<And>x. r' = Inr x \<Longrightarrow> f x = f' x) \<Longrightarrow> sum_bind r f = sum_bind r' f'"
  by (cases r') (simp_all add: sum_bind_def)

text \<open>
  The encoders of \<open>encode.go\<close>, by kind of value: a struct writes its JSON fields in
  order; a nil slice and a nil pointer write \<open>null\<close>; a \<open>*time.Time\<close> writes what
  \<open>MarshalJSON\<close> gives, and its failure ends the encoding. The value comes with its
  type, as an interface value does.
\<close>

function (sequential) encode_value :: "'t golib \<Rightarrow> gtype \<Rightarrow> 't gval \<Rightarrow> error + string"
  and encode_members :: "'t golib \<Rightarrow> gfield list \<Rightarrow> (string \<times> 't gval) list \<Rightarrow> error + string list"
  and encode_elems :: "'t golib \<Rightarrow> gtype \<Rightarrow> 't gval list \<Rightarrow> error + string list"
where
  "encode_value lib ty (VInt i) = Inr (FormatInt i)"
| "encode_value lib ty (VString s) = Inr (quote s)"
| "encode_value lib ty (VBool b) = Inr (if b then ''true'' else ''false'')"
| "encode_value lib ty VNil = Inr ''null''"
| "encode_value lib ty (VTimePtr t) =
     (case time_MarshalJSON lib t of Inl e \<Rightarrow> Inl (MarshalerError e) | Inr s \<Rightarrow> Inr s)"
| "encode_value lib ty (VStruct vals) =
     sum_bind (encode_members lib (json_fields (case ty of TStruct fs \<Rightarrow> fs | _ \<Rightarrow> [])) vals)
       (\<lambda>ms. Inr (''{'' @ join ms @ ''}''))"
| "encode_value lib ty (VSlice xs ys) =
     sum_bind (encode_elems lib (case ty of TSliceOf n \<Rightarrow> named_type n | _ \<Rightarrow> TStruct []) xs)
       (\<lambda>es. Inr (''['' @ join es @ '']''))"
| "encode_members lib fs [] = Inr []"
| "encode_members lib fs ((n, v) # vals) =
     (case find (\<lambda>f. GoName f = n) fs of
        None \<Rightarrow> encode_members lib fs vals
      | Some f \<Rightarrow>
          sum_bind (encode_value lib (Typ f) v) (\<lambda>sv.
            sum_bind (encode_members lib fs vals) (\<lambda>ms.
              Inr ((quote (Tag f) @ CHR '':'' # sv) # ms))))"
| "encode_elems lib ety [] = Inr []"
| "encode_elems lib ety (v # vs) =
     sum_bind (encode_value lib ety v) (\<lambda>sv.
       sum_bind (encode_elems lib ety vs) (\<lambda>es. Inr (sv # es)))"
  by pat_completeness auto

termination
  by (relation "measure (\<lambda>x. case x of
                   Inl (lib, ty, v) \<Rightarrow> size v
                 | Inr (Inl (lib, fs, vals)) \<Rightarrow> size_list (size_prod (\<lambda>k. 0) size) vals
                 | Inr (Inr (lib, ety, vs)) \<Rightarrow> size_list size vs)") auto

text \<open>\<open>Encoder.Encode\<close> into an empty buffer: the value, then a newline.\<close>

definition Encode :: "'t golib \<Rightarrow> gtype \<Rightarrow> 't gval \<Rightarrow> error + string" where
  "Encode lib ty v = sum_bind (encode_value lib ty v) (\<lambda>s. Inr (s @ [CHR 0x0A]))"

section \<open>URLs: net/url\<close>

record userinfo =
  username :: string
  password :: string
  passwordSet :: bool

record url =
  Scheme :: string
  Opaque :: string
  User :: "userinfo option"
  Host :: string
  Path :: string
  RawPath :: string
  OmitHost :: bool
  ForceQuery :: bool
  RawQuery :: string
  Fragment :: string
  RawFragment :: string

definition empty_url :: url where
  "empty_url = \<lparr>Scheme = [], Opaque = [], User = None, Host = [], Path = [], RawPath = [],
                 OmitHost = False, ForceQuery = False, RawQuery = [], Fragment = [],
                 RawFragment = []\<rparr>"

datatype encoding =
    encodePath
  | encodePathSegment
  | encodeHost
  | encodeZone
  | encodeUserPassword
  | encodeQueryComponent
  | encodeFragment

text \<open>\<open>shouldEscape\<close>: whether a byte is written as \<open>%XX\<close> in a part of a URL.\<close>

definition shouldEscape :: "char \<Rightarrow> encoding \<Rightarrow> bool" where
  "shouldEscape c mode =
     (if isAlnum c then False
      else if (mode = encodeHost \<or> mode = encodeZone) \<and> c \<in> set (CHR 0x22 # CHR 0x27 # ''!$&()*+,;=:[]<>'')
        then False
      else if c \<in> set ''-_.~'' then False
      else if c \<in> set ''$&+,/:;=?@'' \<and> mode = encodePath then c = CHR ''?''
      else if c \<in> set ''$&+,/:;=?@'' \<and> mode = encodePathSegment
        then c = CHR ''/'' \<or> c = CHR '';'' \<or> c = CHR '','' \<or> c = CHR ''?''
      else if c \<in> set ''$&+,/:;=?@'' \<and> mode = encodeUserPassword
        then c = CHR ''@'' \<or> c = CHR ''/'' \<or> c = CHR ''?'' \<or> c = CHR '':''
      else if c \<in> set ''$&+,/:;=?@'' \<and> mode = encodeQueryComponent then True
      else if c \<in> set ''$&+,/:;=?@'' \<and> mode = encodeFragment then False
      else if mode = encodeFragment \<and> c \<in> set ''!()*'' then False
      else True)"

definition hexbyte :: "char \<Rightarrow> char \<Rightarrow> char" where
  "hexbyte h1 h2 = char_of (unhex h1 * 16 + unhex h2)"

text \<open>
  \<open>unescape\<close>, first pass: the first malformed escape or, in a host, the first byte a
  host cannot hold.
\<close>

fun unescape_check :: "encoding \<Rightarrow> string \<Rightarrow> error option" where
  "unescape_check mode [] = None"
| "unescape_check mode (c # cs) =
     (if c = CHR ''%'' then
        (case cs of
           h1 # h2 # rest \<Rightarrow>
             if \<not> ishex h1 \<or> \<not> ishex h2 then Some (EscapeError (take 3 (c # cs)))
             else if mode = encodeHost \<and> unhex h1 < 8 \<and> [c, h1, h2] \<noteq> ''%25''
               then Some (EscapeError [c, h1, h2])
             else if mode = encodeZone \<and> [c, h1, h2] \<noteq> ''%25'' \<and> hexbyte h1 h2 \<noteq> CHR '' ''
                     \<and> shouldEscape (hexbyte h1 h2) encodeHost
               then Some (EscapeError [c, h1, h2])
             else unescape_check mode rest
         | _ \<Rightarrow> Some (EscapeError (take 3 (c # cs))))
      else if c = CHR ''+'' then unescape_check mode cs
      else if (mode = encodeHost \<or> mode = encodeZone) \<and> byte c < 128 \<and> shouldEscape c encodeHost
        then Some (InvalidHostError [c])
      else unescape_check mode cs)"

text \<open>Second pass, on a string the first pass has accepted.\<close>

fun unescape_bytes :: "encoding \<Rightarrow> string \<Rightarrow> string" where
  "unescape_bytes mode [] = []"
| "unescape_bytes mode (c # cs) =
     (if c = CHR ''%'' then
        (case cs of
           h1 # h2 # rest \<Rightarrow> hexbyte h1 h2 # unescape_bytes mode rest
         | _ \<Rightarrow> [])
      else if c = CHR ''+'' \<and> mode = encodeQueryComponent then CHR '' '' # unescape_bytes mode cs
      else c # unescape_bytes mode cs)"

definition unescape :: "string \<Rightarrow> encoding \<Rightarrow> error + string" where
  "unescape s mode =
     (case unescape_check mode s of
        Some e \<Rightarrow> Inl e
      | None \<Rightarrow> Inr (unescape_bytes mode s))"

definition escape :: "string \<Rightarrow> encoding \<Rightarrow> string" where
  "escape s mode =
     concat (map (\<lambda>c. if shouldEscape c mode then
                         (if c = CHR '' '' \<and> mode = encodeQueryComponent then ''+''
                          else [CHR ''%'', upperhex (byte c div 16), upperhex (byte c mod 16)])
                       else [c]) s)"

text \<open>
  \<open>getScheme\<close>: the scheme before the first colon and the rest, or no scheme where a
  byte that no scheme holds comes first.
\<close>

fun getScheme_from :: "string \<Rightarrow> string \<Rightarrow> string \<Rightarrow> error + (string \<times> string)" where
  "getScheme_from rawURL seen [] = Inr ([], rawURL)"
| "getScheme_from rawURL seen (c # cs) =
     (if isLower c \<or> isUpper c then getScheme_from rawURL (seen @ [c]) cs
      else if isDigit c \<or> c = CHR ''+'' \<or> c = CHR ''-'' \<or> c = CHR ''.'' then
        (if seen = [] then Inr ([], rawURL) else getScheme_from rawURL (seen @ [c]) cs)
      else if c = CHR '':'' then
        (if seen = [] then Inl (ErrorString ''missing protocol scheme'') else Inr (seen, cs))
      else Inr ([], rawURL))"

definition getScheme :: "string \<Rightarrow> error + (string \<times> string)" where
  "getScheme rawURL = getScheme_from rawURL [] rawURL"

text \<open>\<open>strings.Cut\<close>, \<open>strings.Index\<close> and \<open>strings.LastIndex\<close>.\<close>

definition cut_before :: "char \<Rightarrow> string \<Rightarrow> string" where
  "cut_before sep s = takeWhile (\<lambda>c. c \<noteq> sep) s"

definition cut_after :: "char \<Rightarrow> string \<Rightarrow> string" where
  "cut_after sep s = drop 1 (dropWhile (\<lambda>c. c \<noteq> sep) s)"

fun Index :: "string \<Rightarrow> string \<Rightarrow> nat option" where
  "Index [] sub = (if sub = [] then Some 0 else None)"
| "Index (c # cs) sub =
     (if take (length sub) (c # cs) = sub then Some 0
      else case Index cs sub of None \<Rightarrow> None | Some i \<Rightarrow> Some (Suc i))"

definition LastIndex :: "string \<Rightarrow> char \<Rightarrow> nat option" where
  "LastIndex s c =
     (if c \<in> set s then Some (length s - 1 - length (takeWhile (\<lambda>x. x \<noteq> c) (rev s))) else None)"

definition validOptionalPort :: "string \<Rightarrow> bool" where
  "validOptionalPort port =
     (case port of
        [] \<Rightarrow> True
      | c # ds \<Rightarrow> c = CHR '':'' \<and> list_all isDigit ds)"

definition validUserinfo :: "string \<Rightarrow> bool" where
  "validUserinfo s = list_all (\<lambda>c. isAlnum c \<or> c \<in> set (CHR 0x27 # ''-._:~!$&()*+,;=%@'')) s"

text \<open>
  \<open>netip.ParseAddr\<close>, as far as net/url needs it: whether a text is an IPv4 address, an
  IPv6 address, or neither. \<open>parseIPv4Fields\<close> reads four decimal fields from 0 to 255
  with no leading zero; its arguments are the value and the number of digits of the
  field being read and the number of fields read.
\<close>

datatype addr = IPv4 | IPv6

fun parseIPv4Fields :: "nat \<Rightarrow> nat \<Rightarrow> nat \<Rightarrow> string \<Rightarrow> bool" where
  "parseIPv4Fields val digLen pos [] = (\<not> pos < 3)"
| "parseIPv4Fields val digLen pos (c # cs) =
     (if isDigit c then
        (if digLen = 1 \<and> val = 0 then False
         else if 255 < val * 10 + (byte c - 48) then False
         else parseIPv4Fields (val * 10 + (byte c - 48)) (Suc digLen) pos cs)
      else if c = CHR ''.'' then
        (if digLen = 0 \<or> cs = [] then False
         else if pos = 3 then False
         else parseIPv4Fields 0 0 (Suc pos) cs)
      else False)"

text \<open>
  The loop of \<open>parseIPv6\<close> over the groups of hex digits: \<open>i\<close> counts the bytes of the
  address filled so far, \<open>ellipsis\<close> tells whether \<open>::\<close> has been seen. A group has one
  to four digits; a dot after the digits starts an IPv4 address, which must fill the
  last four bytes; a group is followed by the end of the text or by a colon and more.
\<close>

function parseIPv6_groups :: "nat \<Rightarrow> bool \<Rightarrow> string \<Rightarrow> bool" where
  "parseIPv6_groups i ellipsis s =
     (let off = length (takeWhile ishex s); rest = drop off s in
      if 4 < off \<or> off = 0 then False
      else if take 1 rest = ''.'' then
        (if \<not> ellipsis \<and> i \<noteq> 12 then False
         else if 16 < i + 4 then False
         else parseIPv4Fields 0 0 0 s)
      else if rest = [] then (ellipsis \<or> 16 \<le> i + 2)
      else if hd rest \<noteq> CHR '':'' \<or> length rest = 1 then False
      else if hd (tl rest) = CHR '':'' then
        (if ellipsis then False
         else if tl (tl rest) = [] then True
         else if i + 2 < 16 then parseIPv6_groups (i + 2) True (tl (tl rest))
         else False)
      else if i + 2 < 16 then parseIPv6_groups (i + 2) ellipsis (tl rest)
      else False)"
  by pat_completeness auto

termination
  by (relation "measure (\<lambda>(i, ellipsis, s). length s)") auto

definition parseIPv6 :: "string \<Rightarrow> bool" where
  "parseIPv6 inp =
     (let s = cut_before (CHR ''%'') inp in
      if CHR ''%'' \<in> set inp \<and> cut_after (CHR ''%'') inp = [] then False
      else if take 2 s = ''::'' then (drop 2 s = [] \<or> parseIPv6_groups 0 True (drop 2 s))
      else parseIPv6_groups 0 False s)"

definition ParseAddr :: "string \<Rightarrow> addr option" where
  "ParseAddr s =
     (case find (\<lambda>c. c = CHR ''.'' \<or> c = CHR '':'' \<or> c = CHR ''%'') s of
        None \<Rightarrow> None
      | Some c \<Rightarrow>
          if c = CHR ''.'' then (if parseIPv4Fields 0 0 0 s then Some IPv4 else None)
          else if c = CHR '':'' then (if parseIPv6 s then Some IPv6 else None)
          else None)"

text \<open>
  \<open>parseHost\<close>. Where the host holds an opening bracket, what stands between the last
  opening and the last closing bracket must be an IPv6 address, with a zone after
  \<open>%25\<close> if any, and only a port may follow. Elsewhere what follows the first colon
  must be a port; for the schemes \<open>postgresql\<close> and \<open>postgres\<close> it is what follows the
  last colon.
\<close>

definition parseHost :: "string \<Rightarrow> string \<Rightarrow> error + string" where
  "parseHost scheme host =
     (case LastIndex host (CHR ''['') of
        Some openBracketIdx \<Rightarrow>
          (case LastIndex host (CHR '']'') of
             None \<Rightarrow> Inl (ErrorString (''missing '' @ [CHR 0x27] @ '']'' @ [CHR 0x27] @ '' in host''))
           | Some closeBracketIdx \<Rightarrow>
               (let colonPort = drop (Suc closeBracketIdx) host;
                    hostname = drop (Suc openBracketIdx) (take closeBracketIdx host)
                in if \<not> validOptionalPort colonPort then Inl (InvalidPort colonPort)
                   else
                     sum_bind (unescape colonPort encodeHost) (\<lambda>unescapedColonPort.
                     sum_bind
                       (case Index hostname ''%25'' of
                          Some zoneIdx \<Rightarrow>
                            sum_bind (unescape (take zoneIdx hostname) encodeHost) (\<lambda>hostPart.
                              sum_bind (unescape (drop zoneIdx hostname) encodeZone) (\<lambda>zonePart.
                                Inr (hostPart @ zonePart)))
                        | None \<Rightarrow> unescape hostname encodeHost)
                       (\<lambda>unescapedHostname.
                          case ParseAddr unescapedHostname of
                            None \<Rightarrow> Inl (InvalidHost unescapedHostname)
                          | Some IPv4 \<Rightarrow> Inl (ErrorString ''invalid IP-literal'')
                          | Some IPv6 \<Rightarrow>
                              Inr (''['' @ unescapedHostname @ '']'' @ unescapedColonPort)))))
      | None \<Rightarrow>
          (case Index host '':'' of
             None \<Rightarrow> unescape host encodeHost
           | Some i \<Rightarrow>
               (let lastColon = (case LastIndex host (CHR '':'') of Some j \<Rightarrow> j | None \<Rightarrow> i);
                    k = (if lastColon \<noteq> i \<and> (scheme = ''postgresql'' \<or> scheme = ''postgres'')
                         then lastColon else i)
                in if \<not> validOptionalPort (drop k host) then Inl (InvalidPort (drop k host))
                   else unescape host encodeHost)))"

definition parseAuthority :: "string \<Rightarrow> string \<Rightarrow> error + (userinfo option \<times> string)" where
  "parseAuthority scheme authority =
     (case LastIndex authority (CHR ''@'') of
        None \<Rightarrow> sum_bind (parseHost scheme authority) (\<lambda>host. Inr (None, host))
      | Some i \<Rightarrow>
          sum_bind (parseHost scheme (drop (Suc i) authority)) (\<lambda>host.
            let ui = take i authority in
            if \<not> validUserinfo ui then Inl (ErrorString ''net/url: invalid userinfo'')
            else if CHR '':'' \<notin> set ui then
              sum_bind (unescape ui encodeUserPassword) (\<lambda>u.
                Inr (Some \<lparr>username = u, password = [], passwordSet = False\<rparr>, host))
            else
              sum_bind (unescape (cut_before (CHR '':'') ui) encodeUserPassword) (\<lambda>u.
                sum_bind (unescape (cut_after (CHR '':'') ui) encodeUserPassword) (\<lambda>pw.
                  Inr (Some \<lparr>username = u, password = pw, passwordSet = True\<rparr>, host)))))"

text \<open>
  \<open>setPath\<close> and \<open>setFragment\<close> keep the text as written (\<open>RawPath\<close>,
  \<open>RawFragment\<close>) only where escaping the decoded text would not give it back.
\<close>

definition setPath :: "url \<Rightarrow> string \<Rightarrow> error + url" where
  "setPath u p =
     sum_bind (unescape p encodePath) (\<lambda>path.
       Inr (u\<lparr>Path := path, RawPath := (if p = escape path encodePath then [] else p)\<rparr>))"

definition setFragment :: "url \<Rightarrow> string \<Rightarrow> error + url" where
  "setFragment u f =
     sum_bind (unescape f encodeFragment) (\<lambda>frag.
       Inr (u\<lparr>Fragment := frag, RawFragment := (if f = escape frag encodeFragment then [] else f)\<rparr>))"

definition stringContainsCTLByte :: "string \<Rightarrow> bool" where
  "stringContainsCTLByte s = (\<exists>c \<in> set s. byte c < 32 \<or> byte c = 127)"

text \<open>
  \<open>parse\<close> with \<open>viaRequest = false\<close>, on the URL without its fragment: scheme, query,
  then either an opaque rest or authority and path.
\<close>

definition parse_rest :: "url \<Rightarrow> string \<Rightarrow> error + url" where
  "parse_rest u rest =
     (if take 1 rest \<noteq> ''/'' \<and> Scheme u \<noteq> [] then Inr (u\<lparr>Opaque := rest\<rparr>)
      else if take 1 rest \<noteq> ''/'' \<and> CHR '':'' \<in> set (cut_before (CHR ''/'') rest)
        then Inl (ErrorString ''first path segment in URL cannot contain colon'')
      else if (Scheme u \<noteq> [] \<or> take 3 rest \<noteq> ''///'') \<and> take 2 rest = ''//'' then
        (let authority = cut_before (CHR ''/'') (drop 2 rest);
             rest' = dropWhile (\<lambda>c. c \<noteq> CHR ''/'') (drop 2 rest)
         in sum_bind (parseAuthority (Scheme u) authority) (\<lambda>(ui, host).
              setPath (u\<lparr>User := ui, Host := host\<rparr>) rest'))
      else if Scheme u \<noteq> [] \<and> take 1 rest = ''/'' then setPath (u\<lparr>OmitHost := True\<rparr>) rest
      else setPath u rest)"

definition parse :: "string \<Rightarrow> error + url" where
  "parse rawURL =
     (if stringContainsCTLByte rawURL
      then Inl (ErrorString ''net/url: invalid control character in URL'')
      else if rawURL = ''*'' then Inr (empty_url\<lparr>Path := ''*''\<rparr>)
      else sum_bind (getScheme rawURL) (\<lambda>(scheme, rest).
             let u = empty_url\<lparr>Scheme := map toLower scheme\<rparr> in
             if rest \<noteq> [] \<and> last rest = CHR ''?'' \<and> count_list rest (CHR ''?'') = 1
             then parse_rest (u\<lparr>ForceQuery := True\<rparr>) (butlast rest)
             else parse_rest (u\<lparr>RawQuery := cut_after (CHR ''?'') rest\<rparr>) (cut_before (CHR ''?'') rest)))"

text \<open>\<open>url.Parse\<close>: the fragment is cut off first; errors are wrapped with the text parsed.\<close>

definition url_Parse :: "string \<Rightarrow> error + url" where
  "url_Parse rawURL =
     (let u = cut_before (CHR ''#'') rawURL; frag = cut_after (CHR ''#'') rawURL in
      case parse u of
        Inl e \<Rightarrow> Inl (UrlError ''parse'' u e)
      | Inr url \<Rightarrow>
          if frag = [] then Inr url
          else case setFragment url frag of
                 Inl e \<Rightarrow> Inl (UrlError ''parse'' rawURL e)
               | Inr url' \<Rightarrow> Inr url')"

definition validEncoded :: "string \<Rightarrow> encoding \<Rightarrow> bool" where
  "validEncoded s mode =
     list_all (\<lambda>c. c \<in> set (CHR 0x27 # ''!$&()*+,;=:@[]%'') \<or> \<not> shouldEscape c mode) s"

definition EscapedPath :: "url \<Rightarrow> string" where
  "EscapedPath u =
     (if RawPath u \<noteq> [] \<and> validEncoded (RawPath u) encodePath
         \<and> unescape (RawPath u) encodePath = Inr (Path u) then RawPath u
      else if Path u = ''*'' then ''*''
      else escape (Path u) encodePath)"

definition EscapedFragment :: "url \<Rightarrow> string" where
  "EscapedFragment u =
     (if RawFragment u \<noteq> [] \<and> validEncoded (RawFragment u) encodeFragment
         \<and> unescape (RawFragment u) encodeFragment = Inr (Fragment u) then RawFragment u
      else escape (Fragment u) encodeFragment)"

definition userinfo_String :: "userinfo \<Rightarrow> string" where
  "userinfo_String ui =
     escape (username ui) encodeUserPassword
       @ (if passwordSet ui then CHR '':'' # escape (password ui) encodeUserPassword else [])"

text \<open>\<open>URL.String\<close>, part by part in the order it writes them.\<close>

definition url_String :: "url \<Rightarrow> string" where
  "url_String u =
     (let scheme = (if Scheme u \<noteq> [] then Scheme u @ '':'' else []);
          authority =
            (if Scheme u \<noteq> [] \<or> Host u \<noteq> [] \<or> User u \<noteq> None then
               (if OmitHost u \<and> Host u = [] \<and> User u = None then []
                else (if Host u \<noteq> [] \<or> Path u \<noteq> [] \<or> User u \<noteq> None then ''//'' else [])
                     @ (case User u of None \<Rightarrow> [] | Some ui \<Rightarrow> userinfo_String ui @ ''@'')
                     @ (if Host u \<noteq> [] then escape (Host u) encodeHost else []))
             else []);
          path = EscapedPath u;
          slash = (if path \<noteq> [] \<and> take 1 path \<noteq> ''/'' \<and> Host u \<noteq> [] then ''/'' else []);
          dot = (if scheme @ authority @ slash = [] \<and> CHR '':'' \<in> set (cut_before (CHR ''/'') path)
                 then ''./'' else []);
          hier = (if Opaque u \<noteq> [] then Opaque u else authority @ slash @ dot @ path);
          query = (if ForceQuery u \<or> RawQuery u \<noteq> [] then CHR ''?'' # RawQuery u else []);
          fragment = (if Fragment u \<noteq> [] then CHR ''#'' # EscapedFragment u else [])
      in scheme @ hier @ query @ fragment)"

section \<open>Requests: net/http\<close>

record request =
  Method :: string
  URL :: url
  Header :: "string \<rightharpoonup> string list"
  ReqBody :: string
  ContentLength :: nat
  ReqHost :: string

text \<open>The bytes of an HTTP token: method names and header keys.\<close>

definition isTokenByte :: "char \<Rightarrow> bool" where
  "isTokenByte c = (isAlnum c \<or> c \<in> set (CHR 0x27 # CHR 0x60 # ''!#$%&*+-.^_|~''))"

definition validMethod :: "string \<Rightarrow> bool" where
  "validMethod m = (m \<noteq> [] \<and> list_all isTokenByte m)"

definition removeEmptyPort :: "string \<Rightarrow> string" where
  "removeEmptyPort host =
     (case LastIndex host (CHR '':'') of
        None \<Rightarrow> host
      | Some i \<Rightarrow>
          (case LastIndex host (CHR '']'') of
             None \<Rightarrow> if last host = CHR '':'' then butlast host else host
           | Some j \<Rightarrow> if j < i \<and> last host = CHR '':'' then butlast host else host))"

text \<open>
  \<open>http.NewRequest\<close> with a \<open>*bytes.Buffer\<close> as body: an empty method is \<open>GET\<close>, the
  URL is parsed again from its text, the header is empty.
\<close>

definition http_NewRequest :: "string \<Rightarrow> string \<Rightarrow> string \<Rightarrow> error + request" where
  "http_NewRequest method urlStr buf =
     (let m = (if method = [] then ''GET'' else method) in
      if \<not> validMethod m then Inl (InvalidMethod m)
      else case url_Parse urlStr of
             Inl e \<Rightarrow> Inl e
           | Inr u \<Rightarrow>
               Inr \<lparr>Method = m, URL = u\<lparr>Host := removeEmptyPort (Host u)\<rparr>, Header = Map.empty,
                     ReqBody = buf, ContentLength = length buf,
                     ReqHost = removeEmptyPort (Host u)\<rparr>)"

fun canonical_from :: "bool \<Rightarrow> string \<Rightarrow> string" where
  "canonical_from upper [] = []"
| "canonical_from upper (c # cs) =
     (let c' = (if upper then toUpper c else toLower c)
      in c' # canonical_from (c' = CHR ''-'') cs)"

definition CanonicalMIMEHeaderKey :: "string \<Rightarrow> string" where
  "CanonicalMIMEHeaderKey k = (if list_all isTokenByte k then canonical_from True k else k)"

definition Header_Add :: "(string \<rightharpoonup> string list) \<Rightarrow> string \<Rightarrow> string \<Rightarrow> (string \<rightharpoonup> string list)" where
  "Header_Add h key v =
     (let k = CanonicalMIMEHeaderKey key
      in h(k \<mapsto> (case h k of None \<Rightarrow> [] | Some vs \<Rightarrow> vs) @ [v]))"

section \<open>The client\<close>

definition BASE_URL :: string where
  "BASE_URL = ''https://api.microsofthealth.net/v1/me''"

definition USER_AGENT :: string where
  "USER_AGENT = ''go-microsoft-band-cloud-api:v0.0.1''"

text \<open>\<open>baseURL, _ = url.Parse(BASE_URL)\<close>: the constant parses, see \<open>baseURL_parsed\<close>.\<close>

definition baseURL :: url where
  "baseURL = (case url_Parse BASE_URL of Inr u \<Rightarrow> u | Inl e \<Rightarrow> empty_url)"

text \<open>
  A client holds its HTTP client, here the function that sends a request and gives the
  response or the transport's error, and its base URL. Both are pointers that
  \<open>NewClient\<close> always sets; clients with a nil field are outside the model.
\<close>

record client =
  Client :: "request \<Rightarrow> error + response"
  BaseUrl :: url

text \<open>\<open>NewClient\<close>, from the HTTP client that the OAuth2 configuration makes for the token.\<close>

definition NewClient :: "(request \<Rightarrow> error + response) \<Rightarrow> client" where
  "NewClient oauth_client = \<lparr>Client = oauth_client, BaseUrl = baseURL\<rparr>"

text \<open>
  \<open>NewRequest\<close> has four places where it returns an error; the result names the place
  along with the error.
\<close>

datatype site = AtPathCheck | AtResolve | AtEncode | AtNewRequest

definition NewRequest ::
    "'t golib \<Rightarrow> client \<Rightarrow> string \<Rightarrow> string \<Rightarrow> (gtype \<times> 't gval) option \<Rightarrow> (site \<times> error) + request" where
  "NewRequest lib c method urlStr body =
     (case url_Parse urlStr of
        Inl err \<Rightarrow> Inl (AtPathCheck, err)
      | Inr parsed \<Rightarrow>
          (case url_Parse (url_String (BaseUrl c) @ urlStr) of
             Inl err \<Rightarrow> Inl (AtResolve, err)
           | Inr resolvedUrl \<Rightarrow>
               (case (case body of None \<Rightarrow> Inr [] | Some (ty, v) \<Rightarrow> Encode lib ty v) of
                  Inl err \<Rightarrow> Inl (AtEncode, err)
                | Inr buf \<Rightarrow>
                    (case http_NewRequest method (url_String resolvedUrl) buf of
                       Inl err \<Rightarrow> Inl (AtNewRequest, err)
                     | Inr req \<Rightarrow>
                         Inr (req\<lparr>Header := Header_Add (Header req) ''User-Agent'' USER_AGENT\<rparr>)))))"

text \<open>
  \<open>fmt.Sprintf("%#v", resp)\<close> for the response \<open>resp\<close>, a pointer to a struct: an
  ampersand, the name of the type, and in braces the fields by name in the order of
  their declaration, each in Go syntax. \<open>Status\<close> is a string and comes as a string
  literal, \<open>StatusCode\<close> is an \<open>int\<close> and comes in decimal.
\<close>

definition Sprintf_resp :: "'t golib \<Rightarrow> response \<Rightarrow> string" where
  "Sprintf_resp lib resp =
     ''&http.Response{Status:'' @ Quote_Status lib resp
       @ '', StatusCode:'' @ FormatInt (StatusCode resp)
       @ '', Proto:'' @ Sprintf_fields lib resp"

text \<open>
  \<open>Do\<close> sends the request. The last argument and the last component of the result count
  the calls of \<open>Close\<close> on the body of the response; the deferred call runs on every
  return after the response has arrived. \<open>respStr\<close> is the destination with its type,
  or nothing; it is returned as \<open>Do\<close> leaves it. The first two components are the two
  results of the Go function.
\<close>

definition Do ::
    "'t golib \<Rightarrow> client \<Rightarrow> request \<Rightarrow> (gtype \<times> 't gval) option \<Rightarrow> nat
       \<Rightarrow> response option \<times> error option \<times> (gtype \<times> 't gval) option \<times> nat" where
  "Do lib c req respStr closes =
     (case Client c req of
        Inl err \<Rightarrow> (None, Some err, respStr, closes)
      | Inr resp \<Rightarrow>
          if StatusCode resp > 299 \<or> StatusCode resp < 200 then
            (None, Some (ErrorString (''http request failed, resp: '' @ Sprintf_resp lib resp)),
             respStr, Suc closes)
          else
            (case respStr of
               None \<Rightarrow> (Some resp, None, None, Suc closes)
             | Some (ty, v) \<Rightarrow>
                 (case Decode lib (Body resp) ty v of
                    (v', err) \<Rightarrow> (Some resp, err, Some (ty, v'), Suc closes))))"

text \<open>
  The accessors. Each declares its result, builds the request, sends it with the result
  as destination, and closes the body of the response it got. A call either returns its
  two results and the number of \<open>Close\<close> calls, or panics (closing the body of a nil
  response).
\<close>

datatype 'a outcome = Returned 'a | Panicked

definition dest_value :: "'t gval \<Rightarrow> (gtype \<times> 't gval) option \<Rightarrow> 't gval" where
  "dest_value v0 d = (case d of Some (ty, v) \<Rightarrow> v | None \<Rightarrow> v0)"

definition PeriodSummaries ::
    "'t golib \<Rightarrow> client \<Rightarrow> string \<Rightarrow> nat \<Rightarrow> ((error option \<times> 't gval) \<times> nat) outcome" where
  "PeriodSummaries lib c period closes =
     (let summaries = zero_value Summaries_type in
      case NewRequest lib c ''GET'' (''/Summaries/'' @ period) None of
        Inl (at, err) \<Rightarrow> Returned ((Some err, summaries), closes)
      | Inr req \<Rightarrow>
          (case Do lib c req (Some (Summaries_type, summaries)) closes of
             (resp, Some err, d, closes') \<Rightarrow> Returned ((Some err, dest_value summaries d), closes')
           | (None, None, d, closes') \<Rightarrow> Panicked
           | (Some r, None, d, closes') \<Rightarrow> Returned ((None, dest_value summaries d), Suc closes')))"

definition Profile ::
    "'t golib \<Rightarrow> client \<Rightarrow> nat \<Rightarrow> ((error option \<times> 't gval) \<times> nat) outcome" where
  "Profile lib c closes =
     (let profile = zero_value Profile_type in
      case NewRequest lib c ''GET'' ''/Profile'' None of
        Inl (at, err) \<Rightarrow> Returned ((Some err, profile), closes)
      | Inr req \<Rightarrow>
          (case Do lib c req (Some (Profile_type, profile)) closes of
             (resp, Some err, d, closes') \<Rightarrow> Returned ((Some err, dest_value profile d), closes')
           | (None, None, d, closes') \<Rightarrow> Panicked
           | (Some r, None, d, closes') \<Rightarrow> Returned ((None, dest_value profile d), Suc closes')))"

definition Devices ::
    "'t golib \<Rightarrow> client \<Rightarrow> nat \<Rightarrow> (('t gval \<times> error option) \<times> nat) outcome" where
  "Devices lib c closes =
     (let devices = zero_value DeviceProfiles_type in
      case NewRequest lib c ''GET'' ''/Devices'' None of
        Inl (at, err) \<Rightarrow> Returned ((devices, Some err), closes)
      | Inr req \<Rightarrow>
          (case Do lib c req (Some (DeviceProfiles_type, devices)) closes of
             (resp, Some err, d, closes') \<Rightarrow> Returned ((dest_value devices d, Some err), closes')
           | (None, None, d, closes') \<Rightarrow> Panicked
           | (Some r, None, d, closes') \<Rightarrow> Returned ((dest_value devices d, None), Suc closes')))"

definition Device ::
    "'t golib \<Rightarrow> client \<Rightarrow> string \<Rightarrow> nat \<Rightarrow> (('t gval \<times> error option) \<times> nat) outcome" where
  "Device lib c ident closes =
     (let device = zero_value Device_type in
      case NewRequest lib c ''GET'' (''/Devices/'' @ ident) None of
        Inl (at, err) \<Rightarrow> Returned ((device, Some err), closes)
      | Inr req \<Rightarrow>
          (case Do lib c req (Some (Device_type, device)) closes of
             (resp, Some err, d, closes') \<Rightarrow> Returned ((dest_value device d, Some err), closes')
           | (None, None, d, closes') \<Rightarrow> Panicked
           | (Some r, None, d, closes') \<Rightarrow> Returned ((dest_value device d, None), Suc closes')))"

definition Activities ::
    "'t golib \<Rightarrow> client \<Rightarrow> nat \<Rightarrow> (('t gval \<times> error option) \<times> nat) outcome" where
  "Activities lib c closes =
     (let activities = zero_value Activities_type in
      case NewRequest lib c ''GET'' ''/Activities'' None of
        Inl (at, err) \<Rightarrow> Returned ((activities, Some err), closes)
      | Inr req \<Rightarrow>
          (case Do lib c req (Some (Activities_type, activities)) closes of
             (resp, Some err, d, closes') \<Rightarrow> Returned ((dest_value activities d, Some err), closes')
           | (None, None, d, closes') \<Rightarrow> Panicked
           | (Some r, None, d, closes') \<Rightarrow> Returned ((dest_value activities d, None), Suc closes')))"

definition Activity ::
    "'t golib \<Rightarrow> client \<Rightarrow> string \<Rightarrow> nat \<Rightarrow> (('t gval \<times> error option) \<times> nat) outcome" where
  "Activity lib c ident closes =
     (let activity = zero_value Activity_type in
      case NewRequest lib c ''GET'' (''/Activities/'' @ ident) None of
        Inl (at, err) \<Rightarrow> Returned ((activity, Some err), closes)
      | Inr req \<Rightarrow>
          (case Do lib c req (Some (Activity_type, activity)) closes of
             (resp, Some err, d, closes') \<Rightarrow> Returned ((dest_value activity d, Some err), closes')
           | (None, None, d, closes') \<Rightarrow> Panicked
           | (Some r, None, d, closes') \<Rightarrow> Returned ((dest_value activity d, None), Suc closes')))"

section \<open>Stand-ins for the collaborators\<close>

text \<open>
  A transport that answers every request with one status and body, and a library whose
  times are the text of their JSON string and whose responses print with the status
  text of their code, for the concrete runs below.
\<close>

definition stub_transport :: "int \<Rightarrow> string \<Rightarrow> request \<Rightarrow> error + response" where
  "stub_transport status body req = Inr \<lparr>StatusCode = status, Body = body\<rparr>"

definition stub_lib :: "string golib" where
  "stub_lib =
     \<lparr>time_zero = [],
      time_UnmarshalJSON =
        (\<lambda>j t. case j of
                  JString raw \<Rightarrow> (None, raw)
                | _ \<Rightarrow> (Some (ErrorString ''Time.UnmarshalJSON: input is not a JSON string''), t)),
      time_MarshalJSON = (\<lambda>t. Inr (dquote # t @ [dquote])),
      Quote_Status =
        (\<lambda>r. dquote # FormatInt (StatusCode r)
               @ (if StatusCode r = 200 then '' OK''
                  else if StatusCode r = 404 then '' Not Found'' else []) @ [dquote]),
      Sprintf_fields =
        (\<lambda>r. dquote # ''HTTP/1.1'' @ dquote # '', ProtoMajor:1, ProtoMinor:1, Header:http.Header{}, ''
               @ ''Body:http.noBody{}, ContentLength:'' @ FormatInt (int (length (Body r)))
               @ '', TransferEncoding:[]string(nil), Close:false, Uncompressed:false, ''
               @ ''Trailer:http.Header(nil), Request:('' @ ''*http.Request)(nil), ''
               @ ''TLS:('' @ ''*tls.ConnectionState)(nil)}'')\<rparr>"

definition stub_client :: "int \<Rightarrow> string \<Rightarrow> client" where
  "stub_client status body = NewClient (stub_transport status body)"

text \<open>A transport that answers one method and URL with a response, and nothing else.\<close>

definition mock_transport :: "string \<Rightarrow> string \<Rightarrow> response \<Rightarrow> request \<Rightarrow> error + response" where
  "mock_transport method urlStr resp req =
     (if Method req = method \<and> url_String (URL req) = urlStr then Inr resp
      else Inl (ErrorString ''unexpected request''))"

section \<open>Notions used in the statements\<close>

text \<open>
  A path is plain when net/url writes each of its bytes unescaped in a path: letters,
  digits and \<open>-_.~$&+,/:;=@\<close>.
\<close>

definition path_plain :: "string \<Rightarrow> bool" where
  "path_plain p = list_all (\<lambda>c. \<not> shouldEscape c encodePath) p"

text \<open>
  RFC 3986: a path is made of the bytes of \<open>pchar\<close> and slashes, a query of those and
  question marks, and a percent sign stands before two hex digits. A valid path is such
  a path, with or without a query after it.
\<close>

definition unreserved :: "char \<Rightarrow> bool" where
  "unreserved c = (isAlnum c \<or> c \<in> set ''-._~'')"

definition sub_delims :: "char \<Rightarrow> bool" where
  "sub_delims c = (c \<in> set (CHR 0x27 # ''!$&()*+,;=''))"

definition pchar :: "char \<Rightarrow> bool" where
  "pchar c = (unreserved c \<or> sub_delims c \<or> c = CHR '':'' \<or> c = CHR ''@'')"

fun escapes_ok :: "string \<Rightarrow> bool" where
  "escapes_ok [] = True"
| "escapes_ok (c # cs) =
     (if c = CHR ''%'' then
        (case cs of
           h1 # h2 # rest \<Rightarrow> ishex h1 \<and> ishex h2 \<and> escapes_ok rest
         | _ \<Rightarrow> False)
      else escapes_ok cs)"

definition rfc_path :: "string \<Rightarrow> bool" where
  "rfc_path s = (escapes_ok s \<and> list_all (\<lambda>c. pchar c \<or> c = CHR ''/'' \<or> c = CHR ''%'') s)"

definition rfc_query :: "string \<Rightarrow> bool" where
  "rfc_query s =
     (escapes_ok s \<and> list_all (\<lambda>c. pchar c \<or> c = CHR ''/'' \<or> c = CHR ''?'' \<or> c = CHR ''%'') s)"

definition valid_path :: "string \<Rightarrow> bool" where
  "valid_path p = (rfc_path (cut_before (CHR ''?'') p) \<and> rfc_query (cut_after (CHR ''?'') p))"

text \<open>A path that starts with one slash, not two.\<close>

definition single_slash :: "string \<Rightarrow> bool" where
  "single_slash p = (take 1 p = ''/'' \<and> take 2 p \<noteq> ''//'')"

text \<open>
  Reading the status code back from the message of an error: after the fixed start of
  the message and the string literal of the status, \<open>StatusCode:\<close> and a number in
  decimal. \<open>after_literal\<close> gives what follows a Go string literal, in which a
  backslash takes the next byte with it.
\<close>

definition after_prefix :: "string \<Rightarrow> string \<Rightarrow> string option" where
  "after_prefix pre s = (if take (length pre) s = pre then Some (drop (length pre) s) else None)"

fun after_quoted :: "string \<Rightarrow> string option" where
  "after_quoted [] = None"
| "after_quoted (c # cs) =
     (if c = dquote then Some cs
      else if c = bslash then (case cs of [] \<Rightarrow> None | e # rest \<Rightarrow> after_quoted rest)
      else after_quoted cs)"

definition after_literal :: "string \<Rightarrow> string option" where
  "after_literal s = (case s of [] \<Rightarrow> None | c # cs \<Rightarrow> if c = dquote then after_quoted cs else None)"

definition read_int :: "string \<Rightarrow> int option" where
  "read_int s =
     (let neg = (take 1 s = ''-'');
          ds = takeWhile isDigit (if neg then drop 1 s else s)
      in if ds = [] then None else Some (if neg then - digits_val ds else digits_val ds))"

definition status_of_message :: "string \<Rightarrow> int option" where
  "status_of_message msg =
     (case after_prefix ''http request failed, resp: &http.Response{Status:'' msg of
        None \<Rightarrow> None
      | Some r1 \<Rightarrow>
          (case after_literal r1 of
             None \<Rightarrow> None
           | Some r2 \<Rightarrow>
               (case after_prefix '', StatusCode:'' r2 of
                  None \<Rightarrow> None
                | Some r3 \<Rightarrow> read_int r3)))"

text \<open>
  What \<open>url.Parse\<close> and \<open>URL.String\<close> make of the base URL followed by a path.
  \<open>force_query\<close> tells whether the text ends with its only question mark;
  \<open>resolved p\<close> is the URL parsed from the base URL followed by \<open>p\<close>, for a \<open>p\<close>
  with no fragment, no control byte and no malformed escape before its query;
  \<open>printed p\<close> is what is printed after the base URL for it: the path as written if
  every byte of it may stand in a path, else its decoded bytes escaped again, then the
  query. \<open>path_url p\<close> is the URL parsed from a path alone that starts with one slash.
\<close>

definition force_query :: "string \<Rightarrow> bool" where
  "force_query p = (p \<noteq> [] \<and> last p = CHR ''?'' \<and> count_list p (CHR ''?'') = 1)"

definition resolved :: "string \<Rightarrow> url" where
  "resolved p =
     (let path = cut_before (CHR ''?'') p; dec = unescape_bytes encodePath path in
      empty_url\<lparr>Scheme := ''https'', Host := ''api.microsofthealth.net'',
                 Path := ''/v1/me'' @ dec,
                 RawPath := (if path = escape dec encodePath then [] else ''/v1/me'' @ path),
                 ForceQuery := force_query p,
                 RawQuery := (if force_query p then [] else cut_after (CHR ''?'') p)\<rparr>)"

definition printed_path :: "string \<Rightarrow> string" where
  "printed_path p =
     (if validEncoded (cut_before (CHR ''?'') p) encodePath then cut_before (CHR ''?'') p
      else escape (unescape_bytes encodePath (cut_before (CHR ''?'') p)) encodePath)"

definition printed :: "string \<Rightarrow> string" where
  "printed p =
     (let path = cut_before (CHR ''?'') p in
      (if validEncoded path encodePath then path
       else escape (unescape_bytes encodePath path) encodePath)
      @ (if CHR ''?'' \<in> set p then CHR ''?'' # cut_after (CHR ''?'') p else []))"

definition path_url :: "string \<Rightarrow> url" where
  "path_url p =
     (let path = cut_before (CHR ''?'') p; dec = unescape_bytes encodePath path in
      empty_url\<lparr>Path := dec,
                 RawPath := (if path = escape dec encodePath then [] else path),
                 ForceQuery := force_query p,
                 RawQuery := (if force_query p then [] else cut_after (CHR ''?'') p)\<rparr>)"

text \<open>A byte that neither ends a path nor is a control byte.\<close>

definition url_safe :: "char \<Rightarrow> bool" where
  "url_safe c = (c \<noteq> CHR ''#'' \<and> c \<noteq> CHR ''?'' \<and> \<not> byte c < 32 \<and> byte c \<noteq> 127)"

text \<open>The text of the body of a request: nothing, or the encoding of the value.\<close>

definition body_text :: "'t golib \<Rightarrow> (gtype \<times> 't gval) option \<Rightarrow> error + string" where
  "body_text lib body = (case body of None \<Rightarrow> Inr [] | Some (ty, v) \<Rightarrow> Encode lib ty v)"

text \<open>The base URL with more path appended.\<close>

definition base_with :: "string \<Rightarrow> url" where
  "base_with p = empty_url\<lparr>Scheme := ''https'', Host := ''api.microsofthealth.net'',
                            Path := ''/v1/me'' @ p\<rparr>"

text \<open>
  What the six accessors have in common, error first: the request for a path, the
  exchange, the decoding into the zero value of a type, and the calls of \<open>Close\<close>.
\<close>

definition fetch ::
    "'t golib \<Rightarrow> client \<Rightarrow> string \<Rightarrow> gtype \<Rightarrow> nat \<Rightarrow> ((error option \<times> 't gval) \<times> nat) outcome" where
  "fetch lib c path ty closes =
     (case NewRequest lib c ''GET'' path None of
        Inl (at, err) \<Rightarrow> Returned ((Some err, zero_value ty), closes)
      | Inr req \<Rightarrow>
          (case Client c req of
             Inl err \<Rightarrow> Returned ((Some err, zero_value ty), closes)
           | Inr resp \<Rightarrow>
               if StatusCode resp > 299 \<or> StatusCode resp < 200 then
                 Returned ((Some (ErrorString (''http request failed, resp: '' @ Sprintf_resp lib resp)),
                            zero_value ty), Suc closes)
               else
                 (case Decode lib (Body resp) ty (zero_value ty) of
                    (v, None) \<Rightarrow> Returned ((None, v), Suc (Suc closes))
                  | (v, Some err) \<Rightarrow> Returned ((Some err, v), Suc closes))))"

definition value_first ::
    "((error option \<times> 'a) \<times> nat) outcome \<Rightarrow> (('a \<times> error option) \<times> nat) outcome" where
  "value_first r = (case r of Returned ((e, v), n) \<Rightarrow> Returned ((v, e), n) | Panicked \<Rightarrow> Panicked)"

text \<open>
  An accessor call reaches the decoding when the request is built, the transport answers
  with a status from 200 to 299, and the body starts with a complete JSON value.
\<close>

definition reaches_decoding :: "'t golib \<Rightarrow> client \<Rightarrow> string \<Rightarrow> bool" where
  "reaches_decoding lib c path =
     (case NewRequest lib c ''GET'' path None of
        Inl e \<Rightarrow> False
      | Inr req \<Rightarrow>
          (case Client c req of
             Inl e \<Rightarrow> False
           | Inr resp \<Rightarrow>
               200 \<le> StatusCode resp \<and> StatusCode resp \<le> 299
                 \<and> (case scan_value (Suc (2 * length (Body resp))) 0 (Body resp) of
                      Scanned j rest \<Rightarrow> True
                    | SyntaxErr \<Rightarrow> False
                    | EndOfInput \<Rightarrow> False)))"

definition struct_fields :: "gtype \<Rightarrow> gfield list" where
  "struct_fields ty = (case ty of TStruct fs \<Rightarrow> fs | _ \<Rightarrow> [])"

text \<open>Bodies and the request for the concrete runs.\<close>

definition jane_body :: string where
  "jane_body = ''{\"firstString\":\"Jane\",\"lastName\":\"Doe\",\"height\":170}''"

definition tall_body :: string where
  "tall_body = ''{\"firstString\":\"Jane\",\"height\":\"tall\"}''"

definition sleep_body :: string where
  "sleep_body = ''{\"sleepDuration\":\"PT8H\",\"totalRestfulSleepDuration\":\"PT7H\",\"totalRestlessSleepDuration\":\"PT1H\"}''"

definition profile_request :: request where
  "profile_request =
     \<lparr>Method = ''GET'', URL = base_with ''/Profile'', Header = [''User-Agent'' \<mapsto> [USER_AGENT]],
      ReqBody = [], ContentLength = 0, ReqHost = ''api.microsofthealth.net''\<rparr>"

text \<open>
  The number of \<open>Close\<close> calls after an accessor that got a response has returned
  the error \<open>e\<close>, from \<open>n\<close> before.
\<close>

definition closes_after :: "nat \<Rightarrow> error option \<Rightarrow> nat" where
  "closes_after n e = (if e = None then n + 2 else n + 1)"

definition not_found_body :: string where
  "not_found_body = ''{\"id\":\"abc123\"}''"

section \<open>URLs of plain paths\<close>

lemma plain_char:
  "\<not> shouldEscape c encodePath \<Longrightarrow> isAlnum c \<or> c \<in> set ''-_.~$&+,/:;=@''"
  by (auto simp: shouldEscape_def split: if_splits)

lemma plain_char_facts:
  assumes "\<not> shouldEscape c encodePath"
  shows "c \<noteq> CHR ''%''" "c \<noteq> CHR ''#''" "c \<noteq> CHR ''?''" "\<not> byte c < 32" "byte c \<noteq> 127"
  using plain_char[OF assms]
  by (auto simp: isAlnum_def isLower_def isUpper_def isDigit_def byte_def)

lemma unescape_check_plain: "path_plain p \<Longrightarrow> unescape_check encodePath p = None"
  by (induction p) (auto simp: path_plain_def plain_char_facts)

lemma unescape_bytes_plain: "path_plain p \<Longrightarrow> unescape_bytes encodePath p = p"
  by (induction p) (auto simp: path_plain_def plain_char_facts)

lemma escape_plain: "path_plain p \<Longrightarrow> escape p encodePath = p"
  by (induction p) (auto simp: path_plain_def escape_def)

lemma plain_append: "path_plain (a @ b) = (path_plain a \<and> path_plain b)"
  by (simp add: path_plain_def)

lemma plain_v1me: "path_plain ''/v1/me''"
  by code_simp

lemma setPath_plain: "path_plain p \<Longrightarrow> setPath u p = Inr (u\<lparr>Path := p, RawPath := []\<rparr>)"
  by (simp add: setPath_def unescape_def unescape_check_plain unescape_bytes_plain escape_plain
                sum_bind_def)

lemma plain_set: "path_plain p \<Longrightarrow> c \<in> set p \<Longrightarrow> \<not> shouldEscape c encodePath"
  by (simp add: path_plain_def list_all_iff)

lemma cut_before_none: "sep \<notin> set s \<Longrightarrow> cut_before sep s = s"
  by (auto simp: cut_before_def takeWhile_eq_all_conv)

lemma cut_after_none:
  assumes "sep \<notin> set s"
  shows "cut_after sep s = []"
proof -
  have d: "dropWhile (\<lambda>c. c \<noteq> sep) s = []"
    using assms by (auto simp: dropWhile_eq_Nil_conv)
  show ?thesis unfolding cut_after_def d by simp
qed

lemma plain_no_hash: "path_plain p \<Longrightarrow> CHR ''#'' \<notin> set p"
  using plain_set plain_char_facts(2) by blast

lemma plain_no_query: "path_plain p \<Longrightarrow> CHR ''?'' \<notin> set p"
  using plain_set plain_char_facts(3) by blast

lemma plain_no_ctl: "path_plain p \<Longrightarrow> \<not> stringContainsCTLByte p"
  using plain_set plain_char_facts(4,5) by (auto simp: stringContainsCTLByte_def)

lemma ctl_append:
  "stringContainsCTLByte (a @ b) = (stringContainsCTLByte a \<or> stringContainsCTLByte b)"
  by (auto simp: stringContainsCTLByte_def)

lemma parseAuthority_host:
  "parseAuthority ''https'' ''api.microsofthealth.net'' = Inr (None, ''api.microsofthealth.net'')"
  by code_simp

lemma escape_host: "escape ''api.microsofthealth.net'' encodeHost = ''api.microsofthealth.net''"
  by code_simp

lemma ctl_prefix: "\<not> stringContainsCTLByte ''https://api.microsofthealth.net/v1/me''"
  by code_simp

lemma last_not_query:
  assumes "path_plain p"
  shows "last (''//api.microsofthealth.net/v1/me'' @ p) \<noteq> CHR ''?''"
proof (cases "p = []")
  case True
  then show ?thesis by simp
next
  case False
  then have "last p \<in> set p" by simp
  with assms plain_no_query have "last p \<noteq> CHR ''?''" by metis
  with False show ?thesis by simp
qed

lemma parse_base_plain:
  assumes "path_plain p"
  shows "parse (''https://api.microsofthealth.net/v1/me'' @ p) =
           Inr (empty_url\<lparr>Scheme := ''https'', Host := ''api.microsofthealth.net'',
                           Path := ''/v1/me'' @ p\<rparr>)"
proof -
  have q: "CHR ''?'' \<notin> set (''//api.microsofthealth.net/v1/me'' @ p)"
    using plain_no_query[OF assms] by simp
  have pp: "path_plain (''/v1/me'' @ p)"
    using assms plain_v1me by (simp only: plain_append simp_thms)
  have gs: "getScheme (''https://api.microsofthealth.net/v1/me'' @ p) =
              Inr (''https'', ''//api.microsofthealth.net/v1/me'' @ p)"
    by (simp add: getScheme_def isLower_def isUpper_def isDigit_def byte_def)
  have pr: "parse_rest (empty_url\<lparr>Scheme := ''https'', RawQuery := []\<rparr>)
              (''//api.microsofthealth.net/v1/me'' @ p) =
            Inr (empty_url\<lparr>Scheme := ''https'', Host := ''api.microsofthealth.net'',
                            Path := ''/v1/me'' @ p\<rparr>)"
    using setPath_plain[OF pp]
    by (simp add: parse_rest_def cut_before_def parseAuthority_host sum_bind_def empty_url_def)
  show ?thesis
    unfolding parse_def
    using last_not_query[OF assms] plain_no_ctl[OF assms] ctl_prefix pr
    by (simp add: ctl_append gs sum_bind_def toLower_def isUpper_def byte_def
                  cut_before_none[OF q] cut_after_none[OF q]
             del: append.simps last.simps)
qed

lemma cut_hash:
  assumes "path_plain p"
  shows "cut_before (CHR ''#'') (''https://api.microsofthealth.net/v1/me'' @ p) =
           ''https://api.microsofthealth.net/v1/me'' @ p"
    and "cut_after (CHR ''#'') (''https://api.microsofthealth.net/v1/me'' @ p) = []"
proof -
  have h: "CHR ''#'' \<notin> set (''https://api.microsofthealth.net/v1/me'' @ p)"
    using plain_no_hash[OF assms] by simp
  show "cut_before (CHR ''#'') (''https://api.microsofthealth.net/v1/me'' @ p) =
          ''https://api.microsofthealth.net/v1/me'' @ p"
    by (rule cut_before_none[OF h])
  show "cut_after (CHR ''#'') (''https://api.microsofthealth.net/v1/me'' @ p) = []"
    by (rule cut_after_none[OF h])
qed

lemma url_Parse_base_plain:
  assumes "path_plain p"
  shows "url_Parse (BASE_URL @ p) = Inr (base_with p)"
  unfolding url_Parse_def BASE_URL_def Let_def cut_hash[OF assms] parse_base_plain[OF assms]
    base_with_def
  by simp

lemma url_String_base_plain:
  assumes "path_plain p"
  shows "url_String (base_with p) = BASE_URL @ p"
proof -
  have pp: "path_plain (''/v1/me'' @ p)"
    using assms plain_v1me by (simp only: plain_append simp_thms)
  have ep: "EscapedPath (base_with p) = ''/v1/me'' @ p"
    using escape_plain[OF pp] by (simp add: EscapedPath_def base_with_def empty_url_def)
  show ?thesis
    unfolding url_String_def Let_def ep
    by (simp add: base_with_def empty_url_def escape_host BASE_URL_def)
qed

lemma baseURL_eq: "baseURL = base_with []"
  unfolding baseURL_def base_with_def BASE_URL_def by code_simp

lemma baseURL_parsed: "url_Parse BASE_URL = Inr baseURL"
  unfolding baseURL_def BASE_URL_def by code_simp

lemma url_String_baseURL: "url_String baseURL = BASE_URL"
  using url_String_base_plain[of "[]"] by (simp add: baseURL_eq path_plain_def)

lemma removeEmptyPort_host:
  "removeEmptyPort ''api.microsofthealth.net'' = ''api.microsofthealth.net''"
  by code_simp

lemma canon_ua: "CanonicalMIMEHeaderKey ''User-Agent'' = ''User-Agent''"
  by code_simp

lemma http_NewRequest_plain:
  assumes "path_plain p" and "http_NewRequest m (BASE_URL @ p) buf = Inr req"
  shows "URL req = base_with p"
proof -
  have h: "Host (base_with p) = ''api.microsofthealth.net''"
    by (simp add: base_with_def empty_url_def)
  show ?thesis
    using assms(2)
    by (auto simp: http_NewRequest_def url_Parse_base_plain[OF assms(1)] h removeEmptyPort_host
                   Let_def base_with_def empty_url_def
             split: if_splits)
qed

lemma NewRequest_plain:
  assumes "path_plain p" and "BaseUrl c = baseURL" and "url_Parse p = Inr u" and "validMethod m"
  shows "NewRequest lib c m p None =
           Inr \<lparr>Method = m, URL = base_with p, Header = [''User-Agent'' \<mapsto> [USER_AGENT]],
                 ReqBody = [], ContentLength = 0, ReqHost = ''api.microsofthealth.net''\<rparr>"
proof -
  have m: "m \<noteq> []" using assms(4) by (simp add: validMethod_def)
  have h: "Host (base_with p) = ''api.microsofthealth.net''"
    by (simp add: base_with_def empty_url_def)
  have hr: "http_NewRequest m (BASE_URL @ p) [] =
              Inr \<lparr>Method = m, URL = base_with p, Header = Map.empty,
                    ReqBody = [], ContentLength = 0, ReqHost = ''api.microsofthealth.net''\<rparr>"
    using assms(4) m
    by (simp add: http_NewRequest_def url_Parse_base_plain[OF assms(1)] h removeEmptyPort_host
                  base_with_def empty_url_def)
  show ?thesis
    unfolding NewRequest_def
    by (simp add: assms(2,3) url_String_baseURL url_Parse_base_plain[OF assms(1)]
                  url_String_base_plain[OF assms(1)] hr Header_Add_def canon_ua)
qed

lemma path_facts:
  "path_plain ''/Profile''" "validMethod ''GET''" "path_plain ''/Devices/abc123''"
  "path_plain ''/Activities/a1''"
  by code_simp+

lemma path_parses:
  "\<exists>u. url_Parse ''/Profile'' = Inr u" "\<exists>u. url_Parse ''/Devices/abc123'' = Inr u"
  "\<exists>u. url_Parse ''/Activities/a1'' = Inr u"
proof -
  have "\<not> isl (url_Parse ''/Profile'')" by code_simp
  then show "\<exists>u. url_Parse ''/Profile'' = Inr u" by (cases "url_Parse ''/Profile''") auto
  have "\<not> isl (url_Parse ''/Devices/abc123'')" by code_simp
  then show "\<exists>u. url_Parse ''/Devices/abc123'' = Inr u"
    by (cases "url_Parse ''/Devices/abc123''") auto
  have "\<not> isl (url_Parse ''/Activities/a1'')" by code_simp
  then show "\<exists>u. url_Parse ''/Activities/a1'' = Inr u"
    by (cases "url_Parse ''/Activities/a1''") auto
qed


section \<open>Paths and queries on the base URL\<close>

lemma escape_append: "escape (a @ b) m = escape a m @ escape b m"
  by (simp add: escape_def)

lemma escape_v1me: "escape ''/v1/me'' encodePath = ''/v1/me''"
  by code_simp

lemma validEncoded_append:
  "validEncoded (a @ b) m = (validEncoded a m \<and> validEncoded b m)"
  by (simp add: validEncoded_def)

lemma validEncoded_v1me: "validEncoded ''/v1/me'' encodePath"
  by code_simp

lemma unescape_check_v1me:
  "unescape_check encodePath (''/v1/me'' @ s) = unescape_check encodePath s"
  by simp

lemma unescape_bytes_v1me:
  "unescape_bytes encodePath (''/v1/me'' @ s) = ''/v1/me'' @ unescape_bytes encodePath s"
  by simp

lemma setPath_base:
  assumes "unescape_check encodePath path = None"
  shows "setPath u (''/v1/me'' @ path) =
           Inr (u\<lparr>Path := ''/v1/me'' @ unescape_bytes encodePath path,
                  RawPath := (if path = escape (unescape_bytes encodePath path) encodePath then []
                              else ''/v1/me'' @ path)\<rparr>)"
  using assms
  by (simp add: setPath_def unescape_def sum_bind_def escape_append escape_v1me
                unescape_check_v1me unescape_bytes_v1me del: unescape_check.simps unescape_bytes.simps append.simps)

lemma cut_before_append:
  "sep \<notin> set pre \<Longrightarrow> cut_before sep (pre @ p) = pre @ cut_before sep p"
  by (induction pre) (auto simp: cut_before_def)

lemma cut_after_append:
  "sep \<notin> set pre \<Longrightarrow> cut_after sep (pre @ p) = cut_after sep p"
  by (induction pre) (auto simp: cut_after_def)

lemma cut_join:
  "p = cut_before sep p @ (if sep \<in> set p then sep # cut_after sep p else [])"
proof (induction p)
  case Nil
  show ?case by (simp add: cut_before_def cut_after_def)
next
  case (Cons c p)
  then show ?case by (auto simp: cut_before_def cut_after_def)
qed

lemma cut_before_no_sep: "sep \<notin> set (cut_before sep p)"
  unfolding cut_before_def by (induction p) auto

lemma count_list_0: "c \<notin> set xs \<Longrightarrow> count_list xs c = 0"
  by (induction xs) auto

lemma force_query_prefix:
  assumes "CHR ''?'' \<notin> set pre" and "pre \<noteq> []" and "last pre \<noteq> CHR ''?''"
  shows "(pre @ p \<noteq> [] \<and> last (pre @ p) = CHR ''?'' \<and> count_list (pre @ p) (CHR ''?'') = 1) = force_query p"
  using assms by (cases "p = []") (auto simp: force_query_def count_list_0)

lemma force_query_cut:
  assumes "force_query p"
  shows "butlast p = cut_before (CHR ''?'') p" and "cut_after (CHR ''?'') p = []" and "CHR ''?'' \<in> set p"
proof -
  from assms have ne: "p \<noteq> []" and l: "last p = CHR ''?''" and c: "count_list p (CHR ''?'') = 1"
    by (simp_all add: force_query_def)
  have p: "p = butlast p @ [CHR ''?'']" using ne l by (metis append_butlast_last_id)
  have "count_list (butlast p @ [CHR ''?'']) (CHR ''?'') = 1" using c p by simp
  then have "count_list (butlast p) (CHR ''?'') = 0" by simp
  then have n: "CHR ''?'' \<notin> set (butlast p)" by (simp add: count_list_0_iff)
  have "cut_before (CHR ''?'') (butlast p @ [CHR ''?'']) = butlast p"
    using cut_before_append[OF n, of "[CHR ''?'']"] by (simp add: cut_before_def)
  with p show "butlast p = cut_before (CHR ''?'') p" by simp
  have "cut_after (CHR ''?'') (butlast p @ [CHR ''?'']) = []"
    using cut_after_append[OF n, of "[CHR ''?'']"] by (simp add: cut_after_def)
  with p show "cut_after (CHR ''?'') p = []" by simp
  show "CHR ''?'' \<in> set p" using p by (metis in_set_conv_decomp)
qed

lemma not_force_query_cut:
  assumes "\<not> force_query p" and "CHR ''?'' \<in> set p"
  shows "cut_after (CHR ''?'') p \<noteq> []"
proof
  assume e: "cut_after (CHR ''?'') p = []"
  have j: "p = cut_before (CHR ''?'') p @ [CHR ''?'']"
    using cut_join[of p "CHR ''?''"] assms(2) e by simp
  have n: "CHR ''?'' \<notin> set (cut_before (CHR ''?'') p)" by (rule cut_before_no_sep)
  have "count_list (cut_before (CHR ''?'') p @ [CHR ''?'']) (CHR ''?'') = 1"
    using n by (simp add: count_list_0)
  then have "force_query p" using j by (simp add: force_query_def) (metis j last_snoc snoc_eq_iff_butlast)
  with assms(1) show False by simp
qed

lemma getScheme_base:
  "getScheme (''https://api.microsofthealth.net/v1/me'' @ p) =
     Inr (''https'', ''//api.microsofthealth.net/v1/me'' @ p)"
  by (simp add: getScheme_def isLower_def isUpper_def isDigit_def byte_def)

lemma parse_rest_base:
  assumes "unescape_check encodePath path = None" and "Scheme u = ''https''"
  shows "parse_rest u (''//api.microsofthealth.net/v1/me'' @ path) =
           Inr (u\<lparr>User := None, Host := ''api.microsofthealth.net'',
                  Path := ''/v1/me'' @ unescape_bytes encodePath path,
                  RawPath := (if path = escape (unescape_bytes encodePath path) encodePath then []
                              else ''/v1/me'' @ path)\<rparr>)"
  using setPath_base[OF assms(1), of "u\<lparr>User := None, Host := ''api.microsofthealth.net''\<rparr>"]
  by (simp add: parse_rest_def cut_before_def parseAuthority_host sum_bind_def assms(2))

lemma parse_base:
  assumes nc: "\<not> stringContainsCTLByte p"
    and esc: "unescape_check encodePath (cut_before (CHR ''?'') p) = None"
  shows "parse (''https://api.microsofthealth.net/v1/me'' @ p) = Inr (resolved p)"
proof -
  let ?pre = "''//api.microsofthealth.net/v1/me''"
  have pq: "CHR ''?'' \<notin> set ?pre" by simp
  have f: "(?pre @ p \<noteq> [] \<and> last (?pre @ p) = CHR ''?'' \<and> count_list (?pre @ p) (CHR ''?'') = 1) = force_query p"
    by (rule force_query_prefix) simp_all
  have ctl: "\<not> stringContainsCTLByte (''https://api.microsofthealth.net/v1/me'' @ p)"
    using nc ctl_prefix by (simp only: ctl_append simp_thms)
  have star: "''https://api.microsofthealth.net/v1/me'' @ p \<noteq> ''*''" by simp
  have low: "map toLower ''https'' = ''https''"
    by (simp add: toLower_def isUpper_def byte_def)
  show ?thesis
  proof (cases "force_query p")
    case True
    have b: "butlast (?pre @ p) = ?pre @ cut_before (CHR ''?'') p"
      using force_query_cut(1)[OF True] True by (simp add: butlast_append force_query_def)
    have pr: "parse_rest (empty_url\<lparr>Scheme := ''https'', ForceQuery := True\<rparr>)
                (?pre @ cut_before (CHR ''?'') p) = Inr (resolved p)"
      using parse_rest_base[OF esc, of "empty_url\<lparr>Scheme := ''https'', ForceQuery := True\<rparr>"] True
      by (simp add: resolved_def Let_def empty_url_def)
    show ?thesis
      unfolding parse_def
      using ctl star f True pr b
      by (simp only: if_False if_True getScheme_base sum_bind_def sum.case prod.case Let_def low simp_thms)
  next
    case False
    have cb: "cut_before (CHR ''?'') (?pre @ p) = ?pre @ cut_before (CHR ''?'') p"
      by (rule cut_before_append[OF pq])
    have ca: "cut_after (CHR ''?'') (?pre @ p) = cut_after (CHR ''?'') p"
      by (rule cut_after_append[OF pq])
    have pr: "parse_rest (empty_url\<lparr>Scheme := ''https'', RawQuery := cut_after (CHR ''?'') p\<rparr>)
                (?pre @ cut_before (CHR ''?'') p) = Inr (resolved p)"
      using parse_rest_base[OF esc, of "empty_url\<lparr>Scheme := ''https'', RawQuery := cut_after (CHR ''?'') p\<rparr>"] False
      by (simp add: resolved_def Let_def empty_url_def)
    show ?thesis
      unfolding parse_def
      using ctl star f False pr
      by (simp only: if_False if_True getScheme_base sum_bind_def sum.case prod.case Let_def low cb ca simp_thms)
  qed
qed

lemma url_Parse_base:
  assumes "CHR ''#'' \<notin> set p" and "\<not> stringContainsCTLByte p"
    and "unescape_check encodePath (cut_before (CHR ''?'') p) = None"
  shows "url_Parse (BASE_URL @ p) = Inr (resolved p)"
proof -
  have h: "CHR ''#'' \<notin> set (''https://api.microsofthealth.net/v1/me'' @ p)"
    using assms(1) by simp
  show ?thesis
    unfolding url_Parse_def BASE_URL_def Let_def cut_before_none[OF h] cut_after_none[OF h]
      parse_base[OF assms(2,3)]
    by simp
qed

lemma unescape_base:
  assumes "unescape_check encodePath path = None"
  shows "unescape (''/v1/me'' @ path) encodePath = Inr (''/v1/me'' @ unescape_bytes encodePath path)"
  using assms
  by (simp add: unescape_def unescape_check_v1me unescape_bytes_v1me
           del: unescape_check.simps unescape_bytes.simps append.simps)

lemma EscapedPath_resolved:
  assumes "unescape_check encodePath (cut_before (CHR ''?'') p) = None"
  shows "EscapedPath (resolved p) =
           ''/v1/me'' @ (if validEncoded (cut_before (CHR ''?'') p) encodePath then cut_before (CHR ''?'') p
                         else escape (unescape_bytes encodePath (cut_before (CHR ''?'') p)) encodePath)"
proof -
  let ?path = "cut_before (CHR ''?'') p"
  let ?dec = "unescape_bytes encodePath ?path"
  have P: "Path (resolved p) = ''/v1/me'' @ ?dec"
    by (simp add: resolved_def Let_def empty_url_def)
  have R: "RawPath (resolved p) = (if ?path = escape ?dec encodePath then [] else ''/v1/me'' @ ?path)"
    by (simp add: resolved_def Let_def empty_url_def)
  have ns: "''/v1/me'' @ ?dec \<noteq> ''*''" by simp
  have e: "escape (''/v1/me'' @ ?dec) encodePath = ''/v1/me'' @ escape ?dec encodePath"
    by (simp only: escape_append escape_v1me)
  have v: "validEncoded (''/v1/me'' @ ?path) encodePath = validEncoded ?path encodePath"
    by (simp only: validEncoded_append validEncoded_v1me simp_thms)
  show ?thesis
  proof (cases "?path = escape ?dec encodePath")
    case True
    then have "RawPath (resolved p) = []" using R by simp
    then have "EscapedPath (resolved p) = ''/v1/me'' @ escape ?dec encodePath"
      unfolding EscapedPath_def P using ns e by (simp del: append.simps)
    with True show ?thesis by (simp del: append.simps)
  next
    case False
    then have r: "RawPath (resolved p) = ''/v1/me'' @ ?path" using R by simp
    show ?thesis
      unfolding EscapedPath_def P r unescape_base[OF assms] v e
      using ns by (simp del: append.simps)
  qed
qed

lemma url_String_resolved:
  assumes "unescape_check encodePath (cut_before (CHR ''?'') p) = None"
  shows "url_String (resolved p) = BASE_URL @ printed p"
proof -
  have q: "(if ForceQuery (resolved p) \<or> RawQuery (resolved p) \<noteq> []
            then CHR ''?'' # RawQuery (resolved p) else [])
           = (if CHR ''?'' \<in> set p then CHR ''?'' # cut_after (CHR ''?'') p else [])"
  proof (cases "force_query p")
    case True
    then show ?thesis
      using force_query_cut(2,3)[OF True] by (simp add: resolved_def Let_def empty_url_def)
  next
    case False
    show ?thesis
    proof (cases "CHR ''?'' \<in> set p")
      case True
      with not_force_query_cut[OF False True] False show ?thesis
        by (simp add: resolved_def Let_def empty_url_def)
    next
      case nq: False
      then have "cut_after (CHR ''?'') p = []" by (rule cut_after_none)
      with nq False show ?thesis by (simp add: resolved_def Let_def empty_url_def)
    qed
  qed
  have f: "Scheme (resolved p) = ''https''" "Host (resolved p) = ''api.microsofthealth.net''"
    "User (resolved p) = None" "Opaque (resolved p) = []" "OmitHost (resolved p) = False"
    "Fragment (resolved p) = []"
    by (simp_all add: resolved_def Let_def empty_url_def)
  have pne: "Path (resolved p) \<noteq> []" by (simp add: resolved_def Let_def empty_url_def)
  show ?thesis
    unfolding url_String_def Let_def EscapedPath_resolved[OF assms] q f
    by (simp add: escape_host BASE_URL_def printed_def Let_def del: append.simps)
qed

lemma escapes_ok_check: "escapes_ok s = (unescape_check encodePath s = None)"
  by (induction s rule: escapes_ok.induct) (auto split: list.splits)

lemma rfc_char_facts:
  assumes "pchar c \<or> c = CHR ''/'' \<or> c = CHR ''?'' \<or> c = CHR ''%''"
  shows "c \<noteq> CHR ''#''" "\<not> byte c < 32" "byte c \<noteq> 127"
  using assms
  by (auto simp: pchar_def unreserved_def sub_delims_def isAlnum_def isLower_def isUpper_def
                 isDigit_def byte_def)

lemma pchar_validEncoded:
  assumes "pchar c \<or> c = CHR ''/'' \<or> c = CHR ''%''"
  shows "c \<in> set (CHR 0x27 # ''!$&()*+,;=:@[]%'') \<or> \<not> shouldEscape c encodePath"
  using assms
  by (auto simp: pchar_def unreserved_def sub_delims_def shouldEscape_def)

lemma rfc_path_validEncoded: "rfc_path s \<Longrightarrow> validEncoded s encodePath"
  unfolding rfc_path_def validEncoded_def list_all_iff
  using pchar_validEncoded by blast

lemma set_cut_before: "set (cut_before sep p) \<subseteq> set p"
  unfolding cut_before_def by (auto dest: set_takeWhileD)

lemma set_cut_after: "set (cut_after sep p) \<subseteq> set p"
  unfolding cut_after_def by (meson in_set_dropD set_dropWhileD subsetI)

lemma valid_path_chars:
  assumes "valid_path p" and "c \<in> set p"
  shows "pchar c \<or> c = CHR ''/'' \<or> c = CHR ''?'' \<or> c = CHR ''%''"
proof -
  have "set p = set (cut_before (CHR ''?'') p
                       @ (if CHR ''?'' \<in> set p then CHR ''?'' # cut_after (CHR ''?'') p else []))"
    using cut_join[of p "CHR ''?''"] by simp
  then have "set p \<subseteq> set (cut_before (CHR ''?'') p) \<union> {CHR ''?''} \<union> set (cut_after (CHR ''?'') p)"
    by (auto split: if_splits)
  with assms(2)
  have "c \<in> set (cut_before (CHR ''?'') p) \<or> c = CHR ''?'' \<or> c \<in> set (cut_after (CHR ''?'') p)"
    by blast
  then show ?thesis
    using assms(1) by (auto simp: valid_path_def rfc_path_def rfc_query_def list_all_iff)
qed

lemma valid_path_facts:
  assumes "valid_path p"
  shows "CHR ''#'' \<notin> set p" "\<not> stringContainsCTLByte p"
    "unescape_check encodePath (cut_before (CHR ''?'') p) = None"
    "validEncoded (cut_before (CHR ''?'') p) encodePath"
proof -
  show "CHR ''#'' \<notin> set p"
    using valid_path_chars[OF assms] rfc_char_facts(1) by blast
  show "\<not> stringContainsCTLByte p"
    unfolding stringContainsCTLByte_def
    using valid_path_chars[OF assms] rfc_char_facts(2,3) by blast
  show "unescape_check encodePath (cut_before (CHR ''?'') p) = None"
    using assms by (simp add: valid_path_def rfc_path_def escapes_ok_check)
  show "validEncoded (cut_before (CHR ''?'') p) encodePath"
    using assms by (simp add: valid_path_def rfc_path_validEncoded)
qed

lemma printed_valid: "valid_path p \<Longrightarrow> printed p = p"
  using valid_path_facts(4)[of p] cut_join[of p "CHR ''?''"]
  by (simp add: printed_def Let_def)

lemma url_Parse_valid:
  assumes "valid_path p"
  shows "url_Parse (BASE_URL @ p) = Inr (resolved p)" and "url_String (resolved p) = BASE_URL @ p"
proof -
  show "url_Parse (BASE_URL @ p) = Inr (resolved p)"
    by (rule url_Parse_base[OF valid_path_facts(1,2,3)[OF assms]])
  show "url_String (resolved p) = BASE_URL @ p"
    using url_String_resolved[OF valid_path_facts(3)[OF assms]] printed_valid[OF assms] by simp
qed

lemma Host_resolved: "removeEmptyPort (Host (resolved p)) = Host (resolved p)"
  by (simp add: resolved_def Let_def empty_url_def removeEmptyPort_host)

lemma http_NewRequest_URL:
  assumes "url_Parse s = Inr (resolved p)" and "http_NewRequest m s buf = Inr req"
  shows "URL req = resolved p"
  using assms(2)
  by (auto simp: http_NewRequest_def assms(1) Let_def Host_resolved split: if_splits)

lemma url_Parse_ctl:
  assumes "CHR ''#'' \<notin> set p" and "stringContainsCTLByte p"
  shows "url_Parse p =
           Inl (UrlError ''parse'' p (ErrorString ''net/url: invalid control character in URL''))"
  unfolding url_Parse_def Let_def cut_before_none[OF assms(1)] cut_after_none[OF assms(1)]
  using assms(2) by (simp add: parse_def)

lemma single_slash_cases:
  assumes "single_slash p"
  obtains cs where "p = CHR ''/'' # cs" and "take 1 cs \<noteq> ''/''"
proof -
  from assms obtain cs where p: "p = CHR ''/'' # cs"
    by (cases p) (auto simp: single_slash_def)
  with assms have "take 1 cs \<noteq> ''/''"
    by (cases cs) (auto simp: single_slash_def)
  with p show ?thesis by (rule that)
qed

lemma single_slash_path:
  assumes "single_slash p"
  shows "single_slash (cut_before (CHR ''?'') p)"
proof -
  from assms obtain cs where p: "p = CHR ''/'' # cs" and n: "take 1 cs \<noteq> ''/''"
    by (rule single_slash_cases)
  show ?thesis
    using n unfolding p by (cases cs) (auto simp: single_slash_def cut_before_def)
qed

lemma getScheme_slash: "getScheme (CHR ''/'' # cs) = Inr ([], CHR ''/'' # cs)"
  by (simp add: getScheme_def isLower_def isUpper_def isDigit_def byte_def)

lemma parse_rest_slash:
  assumes "single_slash path" and "Scheme u = []"
  shows "parse_rest u path = setPath u path"
proof -
  from assms(1) obtain cs where p: "path = CHR ''/'' # cs" and n: "take 1 cs \<noteq> ''/''"
    by (rule single_slash_cases)
  show ?thesis
    using n unfolding p by (cases cs) (auto simp: parse_rest_def assms(2))
qed

lemma setPath_check:
  "setPath u path =
     (case unescape_check encodePath path of
        Some e \<Rightarrow> Inl e
      | None \<Rightarrow> Inr (u\<lparr>Path := unescape_bytes encodePath path,
                        RawPath := (if path = escape (unescape_bytes encodePath path) encodePath
                                    then [] else path)\<rparr>))"
  by (simp add: setPath_def unescape_def sum_bind_def split: option.splits)

lemma parse_slash:
  assumes ss: "single_slash p" and nc: "\<not> stringContainsCTLByte p"
  shows "parse p =
           (case unescape_check encodePath (cut_before (CHR ''?'') p) of
              Some e \<Rightarrow> Inl e
            | None \<Rightarrow> Inr (path_url p))"
proof -
  from ss obtain cs where p: "p = CHR ''/'' # cs" by (rule single_slash_cases)
  have star: "p \<noteq> ''*''" using p by simp
  have gs: "getScheme p = Inr ([], p)" unfolding p by (rule getScheme_slash)
  have f: "(p \<noteq> [] \<and> last p = CHR ''?'' \<and> count_list p (CHR ''?'') = 1) = force_query p"
    by (simp add: force_query_def)
  note sp = single_slash_path[OF ss]
  show ?thesis
  proof (cases "force_query p")
    case True
    have pr: "parse_rest (empty_url\<lparr>Scheme := [], ForceQuery := True\<rparr>) (butlast p)
                = (case unescape_check encodePath (cut_before (CHR ''?'') p) of
                     Some e \<Rightarrow> Inl e
                   | None \<Rightarrow> Inr (path_url p))"
      unfolding force_query_cut(1)[OF True]
      using True force_query_cut(2)[OF True]
      by (subst parse_rest_slash[OF sp])
         (simp_all add: setPath_check path_url_def Let_def empty_url_def split: option.splits)
    show ?thesis
      unfolding parse_def
      using nc star f True pr
      by (simp only: if_False if_True gs sum_bind_def sum.case prod.case Let_def list.map simp_thms)
  next
    case False
    have pr: "parse_rest (empty_url\<lparr>Scheme := [], RawQuery := cut_after (CHR ''?'') p\<rparr>)
                (cut_before (CHR ''?'') p)
                = (case unescape_check encodePath (cut_before (CHR ''?'') p) of
                     Some e \<Rightarrow> Inl e
                   | None \<Rightarrow> Inr (path_url p))"
      using False
      by (subst parse_rest_slash[OF sp])
         (simp_all add: setPath_check path_url_def Let_def empty_url_def split: option.splits)
    show ?thesis
      unfolding parse_def
      using nc star f False pr
      by (simp only: if_False if_True gs sum_bind_def sum.case prod.case Let_def list.map simp_thms)
  qed
qed

lemma url_Parse_slash:
  assumes "single_slash p" and "CHR ''#'' \<notin> set p" and "\<not> stringContainsCTLByte p"
  shows "url_Parse p =
           (case unescape_check encodePath (cut_before (CHR ''?'') p) of
              Some e \<Rightarrow> Inl (UrlError ''parse'' p e)
            | None \<Rightarrow> Inr (path_url p))"
  unfolding url_Parse_def Let_def cut_before_none[OF assms(2)] cut_after_none[OF assms(2)]
    parse_slash[OF assms(1,3)]
  by (simp split: option.splits)

lemma byte_of_nat: "n < 256 \<Longrightarrow> byte (char_of n) = n"
  by (simp add: byte_def)

lemma upperhex_byte: "n < 16 \<Longrightarrow> byte (upperhex n) = (if n < 10 then 48 + n else 55 + n)"
  by (simp add: upperhex_def byte_of_nat)

lemma byte_neq: "byte c \<noteq> byte d \<Longrightarrow> c \<noteq> d"
  by auto

lemma upperhex_facts:
  assumes "n < 16"
  shows "url_safe (upperhex n)" "ishex (upperhex n)"
proof -
  have b: "byte (upperhex n) = (if n < 10 then 48 + n else 55 + n)"
    by (rule upperhex_byte[OF assms])
  have "byte (upperhex n) \<noteq> byte (CHR ''#'')" "byte (upperhex n) \<noteq> byte (CHR ''?'')"
    using assms unfolding b by (simp_all add: byte_def)
  then have "upperhex n \<noteq> CHR ''#''" "upperhex n \<noteq> CHR ''?''" by auto
  then show "url_safe (upperhex n)"
    using assms unfolding url_safe_def b by simp
  show "ishex (upperhex n)"
    using assms unfolding ishex_def isDigit_def b by auto
qed

lemma byte_div_mod: "byte c div 16 < 16" "byte c mod 16 < 16"
proof -
  have "byte c < 256" unfolding byte_def by simp
  then show "byte c div 16 < 16" by simp
  show "byte c mod 16 < 16" by simp
qed

lemma unescaped_safe: "\<not> shouldEscape c encodePath \<Longrightarrow> url_safe c \<and> c \<noteq> CHR ''%''"
  using plain_char_facts[of c] by (simp add: url_safe_def)

lemma percent_safe: "url_safe (CHR ''%'')"
  by (simp add: url_safe_def byte_def)

lemma escape_Cons:
  "escape (c # s) encodePath =
     (if shouldEscape c encodePath
      then [CHR ''%'', upperhex (byte c div 16), upperhex (byte c mod 16)]
      else [c]) @ escape s encodePath"
  by (simp add: escape_def)

lemma escape_safe: "list_all url_safe (escape s encodePath)"
proof (induction s)
  case Nil
  show ?case by (simp add: escape_def)
next
  case (Cons c s)
  show ?case
    unfolding escape_Cons
    using Cons unescaped_safe[of c] percent_safe upperhex_facts(1)[OF byte_div_mod(1), of c]
      upperhex_facts(1)[OF byte_div_mod(2), of c]
    by simp
qed

lemma escape_check: "unescape_check encodePath (escape s encodePath) = None"
proof (induction s)
  case Nil
  show ?case by (simp add: escape_def)
next
  case (Cons c s)
  show ?case
    unfolding escape_Cons
    using Cons unescaped_safe[of c] upperhex_facts(2)[OF byte_div_mod(1), of c]
      upperhex_facts(2)[OF byte_div_mod(2), of c]
    by simp
qed

lemma safe_of_path:
  assumes "CHR ''#'' \<notin> set p" and "\<not> stringContainsCTLByte p" and "c \<in> set p" and "c \<noteq> CHR ''?''"
  shows "url_safe c"
  using assms by (auto simp: url_safe_def stringContainsCTLByte_def)

lemma printed_split:
  "printed p = printed_path p @ (if CHR ''?'' \<in> set p then CHR ''?'' # cut_after (CHR ''?'') p else [])"
  by (simp add: printed_def printed_path_def Let_def)

lemma printed_path_safe:
  assumes "CHR ''#'' \<notin> set p" and "\<not> stringContainsCTLByte p"
  shows "list_all url_safe (printed_path p)"
proof (cases "validEncoded (cut_before (CHR ''?'') p) encodePath")
  case True
  have "url_safe c" if "c \<in> set (cut_before (CHR ''?'') p)" for c
  proof -
    from that have "c \<in> set p" using set_cut_before by blast
    moreover from that have "c \<noteq> CHR ''?''" using cut_before_no_sep by metis
    ultimately show ?thesis by (rule safe_of_path[OF assms])
  qed
  with True show ?thesis by (simp add: printed_path_def list_all_iff)
next
  case False
  then show ?thesis by (simp add: printed_path_def escape_safe)
qed

lemma printed_facts:
  assumes nh: "CHR ''#'' \<notin> set p" and nc: "\<not> stringContainsCTLByte p"
    and esc: "unescape_check encodePath (cut_before (CHR ''?'') p) = None"
  shows "CHR ''#'' \<notin> set (printed p)" "\<not> stringContainsCTLByte (printed p)"
    "unescape_check encodePath (cut_before (CHR ''?'') (printed p)) = None"
proof -
  note s = printed_path_safe[OF nh nc]
  have q: "CHR ''?'' \<notin> set (printed_path p)"
    using s by (auto simp: list_all_iff url_safe_def)
  have a: "c \<noteq> CHR ''#'' \<and> \<not> byte c < 32 \<and> byte c \<noteq> 127" if "c \<in> set (printed p)" for c
  proof -
    from that consider "c \<in> set (printed_path p)" | "c = CHR ''?''" | "c \<in> set (cut_after (CHR ''?'') p)"
      unfolding printed_split by (auto split: if_splits)
    then show ?thesis
    proof cases
      case 1
      then show ?thesis using s by (auto simp: list_all_iff url_safe_def)
    next
      case 2
      then show ?thesis by (simp add: byte_def)
    next
      case 3
      then have "c \<in> set p" using set_cut_after by blast
      then show ?thesis using nh nc by (auto simp: stringContainsCTLByte_def)
    qed
  qed
  show "CHR ''#'' \<notin> set (printed p)" using a by blast
  show "\<not> stringContainsCTLByte (printed p)"
    unfolding stringContainsCTLByte_def using a by blast
  have cb: "cut_before (CHR ''?'') (printed p) = printed_path p"
    unfolding printed_split
    by (simp add: cut_before_append[OF q]) (simp add: cut_before_def)
  show "unescape_check encodePath (cut_before (CHR ''?'') (printed p)) = None"
    unfolding cb using esc by (simp add: printed_path_def escape_check)
qed

lemma http_NewRequest_base:
  assumes "url_Parse s = Inr (resolved q)" and "validMethod m"
  shows "http_NewRequest m s buf =
           Inr \<lparr>Method = m, URL = resolved q, Header = Map.empty, ReqBody = buf,
                 ContentLength = length buf, ReqHost = ''api.microsofthealth.net''\<rparr>"
proof -
  have m: "m \<noteq> []" using assms(2) by (simp add: validMethod_def)
  have h: "Host (resolved q) = ''api.microsofthealth.net''"
    by (simp add: resolved_def Let_def empty_url_def)
  have u: "resolved q\<lparr>Host := ''api.microsofthealth.net''\<rparr> = resolved q"
    by (simp add: resolved_def Let_def empty_url_def)
  show ?thesis
    using assms(2) m
    by (simp add: http_NewRequest_def assms(1) h removeEmptyPort_host u)
qed

lemma NewRequest_resolved:
  assumes pc: "url_Parse p = Inr u"
    and nh: "CHR ''#'' \<notin> set p" and nc: "\<not> stringContainsCTLByte p"
    and esc: "unescape_check encodePath (cut_before (CHR ''?'') p) = None"
    and bu: "BaseUrl c = baseURL" and vm: "validMethod m" and bt: "body_text lib body = Inr buf"
  shows "NewRequest lib c m p body =
           Inr \<lparr>Method = m, URL = resolved (printed p), Header = [''User-Agent'' \<mapsto> [USER_AGENT]],
                 ReqBody = buf, ContentLength = length buf,
                 ReqHost = ''api.microsofthealth.net''\<rparr>"
proof -
  note pf = printed_facts[OF nh nc esc]
  have r1: "url_Parse (url_String (BaseUrl c) @ p) = Inr (resolved p)"
    unfolding bu url_String_baseURL by (rule url_Parse_base[OF nh nc esc])
  have s: "url_String (resolved p) = BASE_URL @ printed p"
    by (rule url_String_resolved[OF esc])
  have r2: "url_Parse (BASE_URL @ printed p) = Inr (resolved (printed p))"
    by (rule url_Parse_base[OF pf])
  have b: "(case body of None \<Rightarrow> Inr [] | Some (ty, v) \<Rightarrow> Encode lib ty v) = Inr buf"
    using bt by (simp add: body_text_def)
  show ?thesis
    unfolding NewRequest_def pc r1 b
    by (simp add: s http_NewRequest_base[OF r2 vm] Header_Add_def canon_ua)
qed

section \<open>Numbers in decimal and the message of a status error\<close>

lemma digit_char:
  assumes "d < 10"
  shows "isDigit (char_of (48 + d))" "byte (char_of (48 + d)) = 48 + d"
    "char_of (48 + d) \<noteq> CHR ''-''"
proof -
  show b: "byte (char_of (48 + d)) = 48 + d" using assms by (simp add: byte_def)
  show "isDigit (char_of (48 + d))" unfolding isDigit_def b using assms by simp
  have "byte (char_of (48 + d)) \<noteq> byte (CHR ''-'')" unfolding b by (simp add: byte_def)
  then show "char_of (48 + d) \<noteq> CHR ''-''" by auto
qed

lemma digits_digit: "list_all isDigit (digits n)"
proof (induction n rule: digits.induct)
  case (1 n)
  show ?case
  proof (cases "n < 10")
    case True
    then show ?thesis by (subst digits.simps) (simp add: digit_char(1))
  next
    case False
    have "n mod 10 < 10" by simp
    then have "isDigit (char_of (48 + n mod 10))" by (rule digit_char(1))
    with 1[OF False] False show ?thesis by (subst digits.simps) simp
  qed
qed

lemma digits_nonempty: "digits n \<noteq> []"
  by (subst digits.simps) simp

lemma digits_val_snoc: "digits_val (a @ [c]) = 10 * digits_val a + int (byte c - 48)"
  by (simp add: digits_val_def)

lemma digits_val_digits: "digits_val (digits n) = int n"
proof (induction n rule: digits.induct)
  case (1 n)
  show ?case
  proof (cases "n < 10")
    case True
    then show ?thesis
      by (subst digits.simps) (simp add: digits_val_def digit_char(2))
  next
    case False
    have m: "n mod 10 < 10" by simp
    have "digits_val (digits n) = 10 * digits_val (digits (n div 10)) + int (n mod 10)"
      using False by (subst digits.simps) (simp add: digits_val_snoc digit_char(2)[OF m])
    also have "\<dots> = 10 * int (n div 10) + int (n mod 10)" using 1[OF False] by simp
    also have "\<dots> = int (10 * (n div 10) + n mod 10)" by (simp only: of_nat_add of_nat_mult of_nat_numeral)
    also have "\<dots> = int n" by simp
    finally show ?thesis .
  qed
qed

lemma digits_hd: "hd (digits n) \<noteq> CHR ''-''"
  using digits_digit[of n] digits_nonempty[of n]
  by (cases "digits n") (auto simp: isDigit_def byte_def)

lemma takeWhile_digits:
  assumes "take 1 rest = [] \<or> \<not> isDigit (hd rest)"
  shows "takeWhile isDigit (digits n @ rest) = digits n"
proof -
  have "takeWhile isDigit rest = []" using assms by (cases rest) auto
  then show ?thesis
    using digits_digit[of n] by (simp add: takeWhile_append2 list_all_iff)
qed

lemma read_int_FormatInt:
  assumes "take 1 rest = [] \<or> \<not> isDigit (hd rest)"
  shows "read_int (FormatInt i @ rest) = Some i"
proof (cases "i < 0")
  case True
  then show ?thesis
    using takeWhile_digits[OF assms, of "nat (- i)"] digits_nonempty[of "nat (- i)"]
    by (simp add: read_int_def FormatInt_def Let_def digits_val_digits)
next
  case False
  have h: "take 1 (digits (nat i) @ rest) \<noteq> ''-''"
    using digits_hd[of "nat i"] digits_nonempty[of "nat i"] by (cases "digits (nat i)") auto
  show ?thesis
    using False h takeWhile_digits[OF assms, of "nat i"] digits_nonempty[of "nat i"]
    by (simp add: read_int_def FormatInt_def Let_def digits_val_digits)
qed

lemma after_quoted_append: "after_quoted s = Some [] \<Longrightarrow> after_quoted (s @ r) = Some r"
  by (induction s rule: after_quoted.induct) (auto split: if_splits list.splits)

lemma after_literal_append: "after_literal s = Some [] \<Longrightarrow> after_literal (s @ r) = Some r"
  by (cases s) (auto simp: after_literal_def after_quoted_append split: if_splits)

lemma after_prefix_append: "after_prefix pre (pre @ s) = Some s"
  by (simp add: after_prefix_def)

lemma status_of_message_resp:
  assumes "after_literal (Quote_Status lib resp) = Some []"
  shows "status_of_message (''http request failed, resp: '' @ Sprintf_resp lib resp)
           = Some (StatusCode resp)"
proof -
  have m: "''http request failed, resp: '' @ Sprintf_resp lib resp
             = ''http request failed, resp: &http.Response{Status:''
                 @ (Quote_Status lib resp
                     @ ('', StatusCode:'' @ (FormatInt (StatusCode resp)
                         @ ('', Proto:'' @ Sprintf_fields lib resp))))"
    by (simp add: Sprintf_resp_def)
  have r: "read_int (FormatInt (StatusCode resp) @ ('', Proto:'' @ Sprintf_fields lib resp))
             = Some (StatusCode resp)"
    by (rule read_int_FormatInt) (simp add: isDigit_def byte_def)
  show ?thesis
    unfolding m status_of_message_def after_prefix_append option.case
      after_literal_append[OF assms] r
    by (rule refl)
qed


section \<open>The request builder\<close>

lemma NewRequest_slash_ok:
  assumes "single_slash p" and "CHR ''#'' \<notin> set p" and "\<not> stringContainsCTLByte p"
    and "escapes_ok (cut_before (CHR ''?'') p)"
    and "BaseUrl c = baseURL" and "validMethod m" and "body_text lib body = Inr buf"
  shows "NewRequest lib c m p body =
           Inr \<lparr>Method = m, URL = resolved (printed p), Header = [''User-Agent'' \<mapsto> [USER_AGENT]],
                 ReqBody = buf, ContentLength = length buf,
                 ReqHost = ''api.microsofthealth.net''\<rparr>"
proof -
  have esc: "unescape_check encodePath (cut_before (CHR ''?'') p) = None"
    using assms(4) by (simp add: escapes_ok_check)
  have pc: "url_Parse p = Inr (path_url p)"
    unfolding url_Parse_slash[OF assms(1,2,3)] esc by simp
  show ?thesis
    by (rule NewRequest_resolved[OF pc assms(2,3) esc assms(5,6,7)])
qed

lemma valid_path_wellformed:
  assumes "valid_path p"
  shows "CHR ''#'' \<notin> set p" "\<not> stringContainsCTLByte p" "escapes_ok (cut_before (CHR ''?'') p)"
  using valid_path_facts(1,2,3)[OF assms] by (simp_all add: escapes_ok_check)

lemma NewRequest_url_valid:
  assumes "NewRequest lib c m p body = Inr req" and "BaseUrl c = baseURL" and "valid_path p"
  shows "url_String (URL req) = BASE_URL @ p"
proof -
  note v = url_Parse_valid[OF assms(3)]
  from assms(1) obtain buf r where
    r: "http_NewRequest m (BASE_URL @ p) buf = Inr r" and u: "URL req = URL r"
    by (auto simp: NewRequest_def assms(2) url_String_baseURL v split: sum.splits)
  have "URL r = resolved p" by (rule http_NewRequest_URL[OF v(1) r])
  with u v(2) show ?thesis by simp
qed

text \<open>
  C2. A valid path is a path of RFC 3986, with or without a query after it
  (\<open>valid_path\<close>). For a client made by \<open>NewClient\<close> and every valid path, whatever
  the method and the body, the URL of the request that \<open>NewRequest\<close> produces reads as
  the text of the base URL, \<open>BASE_URL\<close>, followed by the path: the two are joined as
  texts, with no separator added and no reference resolution.
\<close>

theorem NewRequest_url:
  assumes "NewRequest lib (NewClient t) m p body = Inr req" and "valid_path p"
  shows "url_String (URL req) = url_String (BaseUrl (NewClient t)) @ p
           \<and> url_String (BaseUrl (NewClient t)) = BASE_URL"
proof -
  have b: "BaseUrl (NewClient t) = baseURL" by (simp add: NewClient_def)
  show ?thesis
    using NewRequest_url_valid[OF assms(1) b assms(2)] by (simp add: b url_String_baseURL)
qed

text \<open>The example of the claim, \<open>/Profile\<close> on the base URL, and a path with a query.\<close>

lemma example_paths:
  "single_slash ''/Profile''" "valid_path ''/Profile''"
  "single_slash ''/Activities?activityTypes=Run''" "valid_path ''/Activities?activityTypes=Run''"
  "body_text stub_lib None = Inr []"
  by code_simp+

theorem NewRequest_url_witness:
  "(\<exists>req. NewRequest stub_lib (NewClient (stub_transport 200 [])) ''GET'' ''/Profile'' None = Inr req
          \<and> url_String (URL req) = ''https://api.microsofthealth.net/v1/me/Profile'')
   \<and> (\<exists>req. NewRequest stub_lib (NewClient (stub_transport 200 [])) ''GET''
                ''/Activities?activityTypes=Run'' None = Inr req
          \<and> url_String (URL req) = ''https://api.microsofthealth.net/v1/me/Activities?activityTypes=Run'')"
proof -
  have b: "BaseUrl (NewClient (stub_transport 200 [])) = baseURL" by (simp add: NewClient_def)
  have r: "\<exists>req. NewRequest stub_lib (NewClient (stub_transport 200 [])) ''GET'' p None = Inr req"
    if "single_slash p" and "valid_path p" for p
    using NewRequest_slash_ok[OF that(1) valid_path_wellformed[OF that(2)] b path_facts(2)
            example_paths(5)]
    by blast
  from r[OF example_paths(1,2)] obtain req1 where
    r1: "NewRequest stub_lib (NewClient (stub_transport 200 [])) ''GET'' ''/Profile'' None = Inr req1"
    by blast
  from r[OF example_paths(3,4)] obtain req2 where
    r2: "NewRequest stub_lib (NewClient (stub_transport 200 [])) ''GET''
           ''/Activities?activityTypes=Run'' None = Inr req2"
    by blast
  from NewRequest_url[OF r1 example_paths(2)] r1
  have a1: "\<exists>req. NewRequest stub_lib (NewClient (stub_transport 200 [])) ''GET'' ''/Profile'' None = Inr req
          \<and> url_String (URL req) = ''https://api.microsofthealth.net/v1/me/Profile''"
    by (simp add: BASE_URL_def)
  from NewRequest_url[OF r2 example_paths(4)] r2
  have a2: "\<exists>req. NewRequest stub_lib (NewClient (stub_transport 200 [])) ''GET''
                ''/Activities?activityTypes=Run'' None = Inr req
          \<and> url_String (URL req) = ''https://api.microsofthealth.net/v1/me/Activities?activityTypes=Run''"
    by (simp add: BASE_URL_def)
  from a1 a2 show ?thesis by (rule conjI)
qed

text \<open>
  C5 as stated fails. \<open>NewRequest\<close> checks the path with \<open>url.Parse\<close>, which does not
  check that a path is well formed: a path with a space is no path of RFC 3986, and
  \<open>NewRequest\<close> takes it and gives a request, with \<open>%20\<close> for the space in its URL.
\<close>

theorem NewRequest_path_counterexample:
  "\<not> rfc_path ''/a b'' \<and> \<not> valid_path ''/a b''
   \<and> map_sum fst (\<lambda>req. url_String (URL req))
        (NewRequest stub_lib (NewClient (stub_transport 200 [])) ''GET'' ''/a b'' None)
        = Inr ''https://api.microsofthealth.net/v1/me/a%20b''"
  by code_simp

text \<open>
  A path that starts with two slashes is read as a host with its port: one that is a
  path of RFC 3986 may be refused for its port.
\<close>

lemma double_slash_refused:
  "valid_path ''//a:b/c''"
  "url_Parse ''//a:b/c'' = Inl (UrlError ''parse'' ''//a:b/c'' (InvalidPort '':b''))"
  by code_simp+

text \<open>
  C5, as the code has it, for a path that starts with one slash and holds no \<open>#\<close>.
  When the path holds an ASCII control byte, or before its query a percent sign that is
  not followed by two hex digits, \<open>NewRequest\<close> returns at its check of the path, with
  the error of \<open>url.Parse\<close> for the path and no request, whatever the client, the method
  and the body. Otherwise, whatever other bytes the path holds, a request is produced,
  given the base URL of \<open>NewClient\<close>, a valid method and a body that can be encoded.
  A valid path is of the second kind (\<open>valid_path_wellformed\<close>).
\<close>

theorem NewRequest_slash_path:
  assumes "single_slash p" and "CHR ''#'' \<notin> set p"
  shows "(stringContainsCTLByte p \<or> \<not> escapes_ok (cut_before (CHR ''?'') p)
            \<longrightarrow> (\<exists>e. NewRequest lib c m p body = Inl (AtPathCheck, UrlError ''parse'' p e)))
       \<and> (\<not> stringContainsCTLByte p \<and> escapes_ok (cut_before (CHR ''?'') p)
            \<and> BaseUrl c = baseURL \<and> validMethod m \<and> body_text lib body = Inr buf
            \<longrightarrow> (\<exists>req. NewRequest lib c m p body = Inr req \<and> ReqBody req = buf))"
proof (intro conjI impI)
  assume bad: "stringContainsCTLByte p \<or> \<not> escapes_ok (cut_before (CHR ''?'') p)"
  show "\<exists>e. NewRequest lib c m p body = Inl (AtPathCheck, UrlError ''parse'' p e)"
  proof (cases "stringContainsCTLByte p")
    case True
    show ?thesis
      unfolding NewRequest_def url_Parse_ctl[OF assms(2) True] by simp
  next
    case False
    with bad have "unescape_check encodePath (cut_before (CHR ''?'') p) \<noteq> None"
      by (simp add: escapes_ok_check)
    then obtain e where e: "unescape_check encodePath (cut_before (CHR ''?'') p) = Some e" by blast
    show ?thesis
      unfolding NewRequest_def url_Parse_slash[OF assms False] e by simp
  qed
next
  assume ok: "\<not> stringContainsCTLByte p \<and> escapes_ok (cut_before (CHR ''?'') p)
            \<and> BaseUrl c = baseURL \<and> validMethod m \<and> body_text lib body = Inr buf"
  then have nc: "\<not> stringContainsCTLByte p"
    and esc: "unescape_check encodePath (cut_before (CHR ''?'') p) = None"
    and bu: "BaseUrl c = baseURL" and vm: "validMethod m" and bt: "body_text lib body = Inr buf"
    by (simp_all add: escapes_ok_check)
  have pc: "url_Parse p = Inr (path_url p)"
    unfolding url_Parse_slash[OF assms nc] esc by simp
  show "\<exists>req. NewRequest lib c m p body = Inr req \<and> ReqBody req = buf"
    unfolding NewRequest_resolved[OF pc assms(2) nc esc bu vm bt] by simp
qed

lemma refused_paths:
  "single_slash ''/%zz''" "CHR ''#'' \<notin> set ''/%zz''" "\<not> escapes_ok (cut_before (CHR ''?'') ''/%zz'')"
  "single_slash ''/a b''" "CHR ''#'' \<notin> set ''/a b''" "\<not> stringContainsCTLByte ''/a b''"
  "escapes_ok (cut_before (CHR ''?'') ''/a b'')"
  by code_simp+

theorem NewRequest_slash_path_witness:
  "(\<exists>e. NewRequest stub_lib (NewClient (stub_transport 200 [])) ''GET'' ''/%zz'' None
           = Inl (AtPathCheck, UrlError ''parse'' ''/%zz'' e))
   \<and> (\<exists>req. NewRequest stub_lib (NewClient (stub_transport 200 [])) ''GET'' ''/a b'' None = Inr req
           \<and> ReqBody req = [])"
proof -
  have b: "BaseUrl (NewClient (stub_transport 200 [])) = baseURL" by (simp add: NewClient_def)
  note t1 = NewRequest_slash_path[OF refused_paths(1,2), of stub_lib
              "NewClient (stub_transport 200 [])" "''GET''" None, THEN conjunct1, THEN mp,
              OF disjI2[OF refused_paths(3)]]
  note t2 = NewRequest_slash_path[OF refused_paths(4,5), of stub_lib
              "NewClient (stub_transport 200 [])" "''GET''" None "[]", THEN conjunct2, THEN mp,
              OF conjI[OF refused_paths(6) conjI[OF refused_paths(7)
                   conjI[OF b conjI[OF path_facts(2) example_paths(5)]]]]]
  from t1 t2 show ?thesis by (rule conjI)
qed

text \<open>
  C8. Every request \<open>NewRequest\<close> produces has exactly one header, \<open>User-Agent\<close>, with
  the one value \<open>USER_AGENT\<close>.
\<close>

theorem NewRequest_header:
  assumes "NewRequest lib c m p body = Inr req"
  shows "Header req = [''User-Agent'' \<mapsto> [USER_AGENT]]"
  using assms
  by (auto simp: NewRequest_def http_NewRequest_def Header_Add_def canon_ua Let_def
           split: sum.splits if_splits option.splits)

theorem NewRequest_header_witness:
  "\<exists>req. NewRequest stub_lib (NewClient (stub_transport 200 [])) ''GET'' ''/Devices/abc123'' None = Inr req
         \<and> Header req = [''User-Agent'' \<mapsto> [''go-microsoft-band-cloud-api:v0.0.1'']]"
proof -
  obtain u where u: "url_Parse ''/Devices/abc123'' = Inr u" using path_parses(2) by blast
  have b: "BaseUrl (NewClient (stub_transport 200 [])) = baseURL" by (simp add: NewClient_def)
  have "\<exists>req. NewRequest stub_lib (NewClient (stub_transport 200 [])) ''GET'' ''/Devices/abc123'' None = Inr req"
    using NewRequest_plain[OF path_facts(3) b u path_facts(2)] by blast
  then obtain req where
    r: "NewRequest stub_lib (NewClient (stub_transport 200 [])) ''GET'' ''/Devices/abc123'' None = Inr req"
    by blast
  from NewRequest_header[OF r] r show ?thesis
    by (simp add: USER_AGENT_def)
qed

section \<open>The response decoder\<close>

text \<open>
  C3. When the status of the response is below 200 or above 299, \<open>Do\<close> returns the
  error made from the response and no response, whatever the body holds, and the
  destination is as it was: the body is not decoded.
\<close>

theorem Do_status_failure:
  assumes "Client c req = Inr resp" and "StatusCode resp < 200 \<or> 299 < StatusCode resp"
  shows "Do lib c req respStr closes =
           (None, Some (ErrorString (''http request failed, resp: '' @ Sprintf_resp lib resp)),
            respStr, Suc closes)"
  using assms by (auto simp: Do_def)

theorem Do_status_failure_witness:
  "\<forall>req. Do stub_lib (stub_client 404 ''{\"id\":\"abc123\"}'') req
            (Some (Device_type, zero_value Device_type)) 0
          = (None,
             Some (ErrorString (''http request failed, resp: ''
                     @ Sprintf_resp stub_lib \<lparr>StatusCode = 404, Body = ''{\"id\":\"abc123\"}''\<rparr>)),
             Some (Device_type, zero_value Device_type), 1)"
proof
  fix req
  have c: "Client (stub_client 404 ''{\"id\":\"abc123\"}'') req
             = Inr \<lparr>StatusCode = 404, Body = ''{\"id\":\"abc123\"}''\<rparr>"
    by (simp add: stub_client_def NewClient_def stub_transport_def)
  have s: "StatusCode \<lparr>StatusCode = 404, Body = ''{\"id\":\"abc123\"}''\<rparr> < 200
             \<or> 299 < StatusCode \<lparr>StatusCode = 404, Body = ''{\"id\":\"abc123\"}''\<rparr>"
    by simp
  show "Do stub_lib (stub_client 404 ''{\"id\":\"abc123\"}'') req
            (Some (Device_type, zero_value Device_type)) 0
          = (None,
             Some (ErrorString (''http request failed, resp: ''
                     @ Sprintf_resp stub_lib \<lparr>StatusCode = 404, Body = ''{\"id\":\"abc123\"}''\<rparr>)),
             Some (Device_type, zero_value Device_type), 1)"
    using Do_status_failure[OF c s] by simp
qed

lemma stub_client_simps:
  "BaseUrl (stub_client status body) = baseURL"
  "Client (stub_client status body) req = Inr \<lparr>StatusCode = status, Body = body\<rparr>"
  by (simp_all add: stub_client_def NewClient_def stub_transport_def)

text \<open>
  C6 as stated fails. The error that \<open>Do\<close> returns for a status outside 200 to 299 is
  made by \<open>errors.New\<close>: it is a text and nothing else, it has no field that holds the
  status code, and \<open>Do\<close> returns no response with it. This is the run for a 404.
\<close>

theorem Do_status_error_counterexample:
  "Do stub_lib (stub_client 404 not_found_body) profile_request None 0
     = (None,
        Some (ErrorString
                (''http request failed, resp: &http.Response{Status:\"404 Not Found\", StatusCode:404, Proto:''
                   @ Sprintf_fields stub_lib \<lparr>StatusCode = 404, Body = not_found_body\<rparr>)),
        None, 1)"
proof -
  have s: "StatusCode \<lparr>StatusCode = 404, Body = not_found_body\<rparr> > 299" by simp
  have f: "FormatInt 404 = ''404''" by code_simp
  show ?thesis
    using s
    by (simp add: Do_def stub_client_simps Sprintf_resp_def stub_lib_def f dquote_def)
qed

text \<open>
  C6, as the code has it. The message of the error is \<open>http request failed, resp: \<close>
  followed by the text that \<open>fmt\<close> prints for the response. The status code stands in
  it in decimal, after \<open>StatusCode:\<close> and behind the string literal of the status, and
  \<open>status_of_message\<close> reads it back from there: this is how a caller can branch on
  the status code. The string literal is one as \<open>strconv.Quote\<close> makes them, closed
  by its first double quote that has no backslash before it.
\<close>

theorem Do_status_error:
  assumes "Client c req = Inr resp" and "StatusCode resp < 200 \<or> 299 < StatusCode resp"
    and "after_literal (Quote_Status lib resp) = Some []"
  shows "\<exists>msg. Do lib c req respStr closes = (None, Some (ErrorString msg), respStr, Suc closes)
               \<and> msg = ''http request failed, resp: '' @ Sprintf_resp lib resp
               \<and> status_of_message msg = Some (StatusCode resp)"
  using assms(1,2) status_of_message_resp[OF assms(3)] by (auto simp: Do_def)

theorem Do_status_error_witness:
  "\<exists>msg. Do stub_lib (stub_client 404 not_found_body) profile_request None 0
           = (None, Some (ErrorString msg), None, 1)
         \<and> status_of_message msg = Some 404"
proof -
  have s: "StatusCode \<lparr>StatusCode = 404, Body = not_found_body\<rparr> < 200
             \<or> 299 < StatusCode \<lparr>StatusCode = 404, Body = not_found_body\<rparr>"
    by simp
  have q: "after_literal (Quote_Status stub_lib \<lparr>StatusCode = 404, Body = not_found_body\<rparr>) = Some []"
    by code_simp
  from Do_status_error[OF stub_client_simps(2) s q, of profile_request None 0]
  show ?thesis by auto
qed

section \<open>The accessors\<close>


lemma Profile_fetch: "Profile lib c n = fetch lib c ''/Profile'' Profile_type n"
  by (auto simp: Profile_def fetch_def Do_def Let_def dest_value_def
           split: sum.splits prod.splits option.splits)

lemma PeriodSummaries_fetch:
  "PeriodSummaries lib c period n = fetch lib c (''/Summaries/'' @ period) Summaries_type n"
  by (auto simp: PeriodSummaries_def fetch_def Do_def Let_def dest_value_def
           split: sum.splits prod.splits option.splits)

lemma Devices_fetch: "Devices lib c n = value_first (fetch lib c ''/Devices'' DeviceProfiles_type n)"
  by (auto simp: Devices_def fetch_def Do_def Let_def dest_value_def value_first_def
           split: sum.splits prod.splits option.splits)

lemma Device_fetch:
  "Device lib c ident n = value_first (fetch lib c (''/Devices/'' @ ident) Device_type n)"
  by (auto simp: Device_def fetch_def Do_def Let_def dest_value_def value_first_def
           split: sum.splits prod.splits option.splits)

lemma Activities_fetch:
  "Activities lib c n = value_first (fetch lib c ''/Activities'' Activities_type n)"
  by (auto simp: Activities_def fetch_def Do_def Let_def dest_value_def value_first_def
           split: sum.splits prod.splits option.splits)

lemma Activity_fetch:
  "Activity lib c ident n = value_first (fetch lib c (''/Activities/'' @ ident) Activity_type n)"
  by (auto simp: Activity_def fetch_def Do_def Let_def dest_value_def value_first_def
           split: sum.splits prod.splits option.splits)

lemma value_first_Returned:
  "value_first r = Returned ((v, e), n) \<longleftrightarrow> r = Returned ((e, v), n)"
  by (auto simp: value_first_def split: outcome.splits prod.splits)

lemma fetch_closes:
  assumes "NewRequest lib c ''GET'' path None = Inr req" and "Client c req = Inr resp"
  shows "\<exists>e v. fetch lib c path ty n = Returned ((e, v), closes_after n e)"
  using assms by (auto simp: fetch_def closes_after_def split: prod.splits option.splits)

lemma fetch_run:
  assumes "NewRequest lib c ''GET'' path None = Inr req" and "Client c req = Inr resp"
    and "200 \<le> StatusCode resp" and "StatusCode resp \<le> 299"
    and "Decode lib (Body resp) ty (zero_value ty) = (v, e)"
  shows "fetch lib c path ty n = Returned ((e, v), closes_after n e)"
  using assms by (auto simp: fetch_def closes_after_def split: prod.splits option.splits)

lemma Do_closes:
  assumes "Client c req = Inr resp"
  shows "\<exists>r e d. Do lib c req respStr n = (r, e, d, Suc n)"
  using assms by (auto simp: Do_def split: prod.splits option.splits)

lemma set_field_other: "m \<noteq> n \<Longrightarrow> map_of (set_field n x vals) m = map_of vals m"
  by (induction vals) (auto simp: set_field_def)

lemma find_Some_set: "find P xs = Some x \<Longrightarrow> x \<in> set xs"
  by (induction xs) (auto split: if_splits)

lemma find_field_set: "find_field fs key = Some f \<Longrightarrow> f \<in> set fs"
  by (auto simp: find_field_def find_Some_set split: option.splits)

lemma decode_members_frame:
  assumes "name \<notin> GoName ` set fs"
  shows "map_of (fst (decode_members lib kvs fs vals sv)) name = map_of vals name"
  using assms
proof (induction kvs arbitrary: vals sv)
  case Nil
  then show ?case by simp
next
  case (Cons kv kvs)
  obtain k j where kv: "kv = (k, j)" by (cases kv)
  show ?case
  proof (cases "find_field fs (unquote k)")
    case None
    then show ?thesis using Cons kv by simp
  next
    case (Some f)
    then have "f \<in> set fs" by (rule find_field_set)
    with Cons.prems have ne: "name \<noteq> GoName f" by auto
    obtain x' sv' ab where d: "decode_value lib j (Typ f) (field_or_zero vals f) sv = (x', sv', ab)"
      by (cases "decode_value lib j (Typ f) (field_or_zero vals f) sv")
    show ?thesis
      using Cons.IH[OF Cons.prems, of "set_field (GoName f) x' vals" sv'] Some kv d ne
      by (simp add: set_field_other)
  qed
qed

lemma decode_struct_frame:
  assumes "name \<notin> GoName ` set (json_fields fs)"
  shows "get_field (fst (decode_value lib j (TStruct fs) (VStruct vals) sv)) name = map_of vals name"
proof (cases j)
  case (JObject kvs)
  obtain vals' sv' ab where d: "decode_members lib kvs (json_fields fs) vals sv = (vals', sv', ab)"
    by (cases "decode_members lib kvs (json_fields fs) vals sv")
  have "map_of vals' name = map_of vals name"
    using decode_members_frame[OF assms, of lib kvs vals sv] d by simp
  then show ?thesis
    using JObject d by (simp add: get_field_def struct_vals_def)
qed (simp_all add: literalStore_def get_field_def)

lemma Decode_struct_frame:
  assumes "name \<notin> GoName ` set (json_fields fs)"
  shows "get_field (fst (Decode lib body (TStruct fs) (VStruct vals))) name = map_of vals name"
proof (cases "scan_value (Suc (2 * length body)) 0 body")
  case (Scanned j rest)
  obtain v' sv ab where d: "decode_value lib j (TStruct fs) (VStruct vals) None = (v', sv, ab)"
    by (cases "decode_value lib j (TStruct fs) (VStruct vals) None")
  have "get_field v' name = map_of vals name"
    using decode_struct_frame[OF assms, of lib j vals None] d by simp
  then show ?thesis
    using Scanned d by (auto simp: Decode_def split: option.splits)
qed (simp_all add: Decode_def get_field_def)

lemma fetch_value:
  assumes "fetch lib c path ty n = Returned ((e, v), n')"
  shows "v = zero_value ty \<or> (\<exists>body. v = fst (Decode lib body ty (zero_value ty)))"
proof -
  have "v = zero_value ty \<or> (\<exists>body e'. Decode lib body ty (zero_value ty) = (v, e'))"
    using assms
    by (auto simp: fetch_def split: sum.splits prod.splits option.splits if_splits)
  then show ?thesis by (metis fst_conv)
qed

lemma fetch_zero:
  assumes "\<not> reaches_decoding lib c path" and "fetch lib c path ty n = Returned ((e, v), n')"
  shows "v = zero_value ty"
  using assms
  by (auto simp: fetch_def reaches_decoding_def Decode_def
           split: sum.splits prod.splits option.splits if_splits scan.splits)

lemma Activity_type_struct: "Activity_type = TStruct (struct_fields Activity_type)"
  by (simp add: Activity_type_def struct_fields_def)

lemma json_fields_iff:
  "f \<in> set (json_fields fs) \<longleftrightarrow> f \<in> set fs \<and> length (filter (\<lambda>g. Tag g = Tag f) fs) = 1"
  by (auto simp: json_fields_def)

lemma restless_twice:
  "length (filter (\<lambda>g. Tag g = ''totalRestlessSleepDuration'') (struct_fields Activity_type)) = 2"
  by code_simp

lemma restful_field:
  assumes "f \<in> set (struct_fields Activity_type)" and "GoName f = ''TotalRestfulSleepDuration''"
  shows "Tag f = ''totalRestlessSleepDuration''"
  using assms by (auto simp: struct_fields_def Activity_type_def)

lemma restful_not_json:
  "''TotalRestfulSleepDuration'' \<notin> GoName ` set (json_fields (struct_fields Activity_type))"
proof
  assume "''TotalRestfulSleepDuration'' \<in> GoName ` set (json_fields (struct_fields Activity_type))"
  then obtain f where f: "f \<in> set (json_fields (struct_fields Activity_type))"
    and n: "GoName f = ''TotalRestfulSleepDuration''" by auto
  from f have m: "f \<in> set (struct_fields Activity_type)"
    and c: "length (filter (\<lambda>g. Tag g = Tag f) (struct_fields Activity_type)) = 1"
    by (simp_all add: json_fields_iff)
  from restful_field[OF m n] c restless_twice show False by simp
qed

lemma zero_restful:
  "get_field (zero_value Activity_type) ''TotalRestfulSleepDuration'' = Some (VString [])"
  by (simp add: Activity_type_def get_field_def)

lemma zero_Activity_struct: "zero_value Activity_type = VStruct (zero_fields (struct_fields Activity_type))"
  by (simp add: Activity_type_def struct_fields_def)


lemma profile_NewRequest:
  assumes "BaseUrl c = baseURL"
  shows "NewRequest lib c ''GET'' ''/Profile'' None = Inr profile_request"
proof -
  obtain u where u: "url_Parse ''/Profile'' = Inr u" using path_parses(1) by blast
  show ?thesis
    unfolding profile_request_def
    by (rule NewRequest_plain[OF path_facts(1) assms u path_facts(2)])
qed

lemma Profile_type_struct: "Profile_type = TStruct (struct_fields Profile_type)"
  by (simp add: Profile_type_def struct_fields_def)

lemma zero_Profile:
  "zero_value Profile_type =
     VStruct
      [(''FirstName'', VString []), (''MiddleName'', VString []),
       (''LastName'', VString []), (''Birthdate'', VNil),
       (''PostalCode'', VString []), (''Gender'', VString []),
       (''Height'', VInt 0), (''Weight'', VInt 0),
       (''PreferredLocale'', VString []), (''LastUpdateTime'', VNil)]"
  by (simp add: Profile_type_def)

lemma Profile_fields:
  "find_field (json_fields (struct_fields Profile_type)) ''firstString''
     = Some (Field ''FirstName'' ''firstString'' TString)"
  "find_field (json_fields (struct_fields Profile_type)) ''lastName''
     = Some (Field ''LastName'' ''lastName'' TString)"
  "find_field (json_fields (struct_fields Profile_type)) ''height''
     = Some (Field ''Height'' ''height'' TInt)"
  by code_simp+

lemma Profile_literals:
  "unquote ''Jane'' = ''Jane''" "unquote ''Doe'' = ''Doe''" "ParseInt64 ''170'' = Some 170"
  "unquote ''firstString'' = ''firstString''" "unquote ''lastName'' = ''lastName''"
  "unquote ''height'' = ''height''" "unquote ''tall'' = ''tall''"
  by code_simp+

lemma jane_scan:
  "scan_value (Suc (2 * length jane_body)) 0 jane_body
     = Scanned (JObject [(''firstString'', JString ''Jane''), (''lastName'', JString ''Doe''),
                         (''height'', JNumber ''170'')]) []"
  by code_simp

lemma tall_scan:
  "scan_value (Suc (2 * length tall_body)) 0 tall_body
     = Scanned (JObject [(''firstString'', JString ''Jane''), (''height'', JString ''tall'')]) []"
  by code_simp

lemmas decode_steps =
  decode_value.simps decode_members.simps gtype.case Profile_fields Profile_literals
  struct_vals_def field_or_zero_def literalStore_def set_field_def gval.case gfield.sel
  map_of.simps option.case json.case prod.case list.map if_True if_False refl simp_thms
  fst_conv snd_conv list.inject char.inject saveError_def json_kind_def scan.case
  fun_upd_apply

lemma jane_Decode:
  "Decode lib jane_body Profile_type (zero_value Profile_type)
     = (VStruct
         [(''FirstName'', VString ''Jane''), (''MiddleName'', VString []),
          (''LastName'', VString ''Doe''), (''Birthdate'', VNil),
          (''PostalCode'', VString []), (''Gender'', VString []),
          (''Height'', VInt 170), (''Weight'', VInt 0),
          (''PreferredLocale'', VString []), (''LastUpdateTime'', VNil)], None)"
  unfolding Decode_def jane_scan zero_Profile
  by (subst Profile_type_struct) (simp only: decode_steps)

lemma tall_Decode:
  "Decode lib tall_body Profile_type (zero_value Profile_type)
     = (VStruct
         [(''FirstName'', VString ''Jane''), (''MiddleName'', VString []),
          (''LastName'', VString []), (''Birthdate'', VNil),
          (''PostalCode'', VString []), (''Gender'', VString []),
          (''Height'', VInt 0), (''Weight'', VInt 0),
          (''PreferredLocale'', VString []), (''LastUpdateTime'', VNil)],
        Some (UnmarshalTypeError ''string''))"
  unfolding Decode_def tall_scan zero_Profile
  by (subst Profile_type_struct) (simp only: decode_steps)

text \<open>
  C1, as the code has it. Once the transport has given a response, \<open>Do\<close> closes its
  body exactly once, on each of its returns (bad status, decoding failure, success).
  An accessor closes the body once more when \<open>Do\<close> returned no error: after an
  accessor returns, the body has been closed once if it returns an error and twice if it
  returns none (\<open>closes_after\<close>). No accessor leaves the body open, and none panics.
\<close>

theorem body_closed:
  assumes "Client c req = Inr resp"
  shows "(\<exists>r e d. Do lib c req respStr n = (r, e, d, Suc n))
   \<and> (NewRequest lib c ''GET'' (''/Summaries/'' @ period) None = Inr req
        \<longrightarrow> (\<exists>e v. PeriodSummaries lib c period n = Returned ((e, v), closes_after n e)))
   \<and> (NewRequest lib c ''GET'' ''/Profile'' None = Inr req
        \<longrightarrow> (\<exists>e v. Profile lib c n = Returned ((e, v), closes_after n e)))
   \<and> (NewRequest lib c ''GET'' ''/Devices'' None = Inr req
        \<longrightarrow> (\<exists>e v. Devices lib c n = Returned ((v, e), closes_after n e)))
   \<and> (NewRequest lib c ''GET'' (''/Devices/'' @ ident) None = Inr req
        \<longrightarrow> (\<exists>e v. Device lib c ident n = Returned ((v, e), closes_after n e)))
   \<and> (NewRequest lib c ''GET'' ''/Activities'' None = Inr req
        \<longrightarrow> (\<exists>e v. Activities lib c n = Returned ((v, e), closes_after n e)))
   \<and> (NewRequest lib c ''GET'' (''/Activities/'' @ ident) None = Inr req
        \<longrightarrow> (\<exists>e v. Activity lib c ident n = Returned ((v, e), closes_after n e)))"
proof -
  have d: "\<exists>r e d. Do lib c req respStr n = (r, e, d, Suc n)"
    by (rule Do_closes[OF assms])
  have f: "\<exists>e v. fetch lib c path ty n = Returned ((e, v), closes_after n e)"
    if "NewRequest lib c ''GET'' path None = Inr req" for path ty
    by (rule fetch_closes[OF that assms])
  have vf: "\<exists>e v. value_first (fetch lib c path ty n) = Returned ((v, e), closes_after n e)"
    if "NewRequest lib c ''GET'' path None = Inr req" for path ty
    using f[OF that, of ty] by (auto simp: value_first_def)
  show ?thesis
    unfolding PeriodSummaries_fetch Profile_fetch Devices_fetch Device_fetch Activities_fetch
      Activity_fetch
    by (intro conjI impI; (rule d | erule f | erule vf))
qed

theorem body_closed_witness:
  "(\<exists>r e d. Do stub_lib (stub_client 200 jane_body) profile_request None 0 = (r, e, d, Suc 0))
   \<and> (\<exists>e v. Profile stub_lib (stub_client 200 jane_body) 0 = Returned ((e, v), closes_after 0 e))"
proof -
  note bc = body_closed[OF stub_client_simps(2)[of 200 jane_body profile_request], of stub_lib None 0]
  have r: "NewRequest stub_lib (stub_client 200 jane_body) ''GET'' ''/Profile'' None
             = Inr profile_request"
    by (rule profile_NewRequest[OF stub_client_simps(1)])
  show ?thesis
    by (rule conjI[OF bc[THEN conjunct1]
                      bc[THEN conjunct2, THEN conjunct2, THEN conjunct1, THEN mp, OF r]])
qed

text \<open>
  C1 as stated fails on the accessors' success path: \<open>Profile\<close> on a good response
  returns with the body closed twice, once by the deferred call in \<open>Do\<close> and once by
  \<open>Profile\<close> itself.
\<close>

theorem body_closed_counterexample:
  "Profile stub_lib (stub_client 200 jane_body) 0
     = Returned ((None,
         VStruct
          [(''FirstName'', VString ''Jane''), (''MiddleName'', VString []),
           (''LastName'', VString ''Doe''), (''Birthdate'', VNil),
           (''PostalCode'', VString []), (''Gender'', VString []),
           (''Height'', VInt 170), (''Weight'', VInt 0),
           (''PreferredLocale'', VString []), (''LastUpdateTime'', VNil)]), 2)"
proof -
  have s: "200 \<le> StatusCode \<lparr>StatusCode = 200, Body = jane_body\<rparr>"
    "StatusCode \<lparr>StatusCode = 200, Body = jane_body\<rparr> \<le> 299" by simp_all
  have d: "Decode stub_lib (Body \<lparr>StatusCode = 200, Body = jane_body\<rparr>) Profile_type
             (zero_value Profile_type)
           = (VStruct
               [(''FirstName'', VString ''Jane''), (''MiddleName'', VString []),
                (''LastName'', VString ''Doe''), (''Birthdate'', VNil),
                (''PostalCode'', VString []), (''Gender'', VString []),
                (''Height'', VInt 170), (''Weight'', VInt 0),
                (''PreferredLocale'', VString []), (''LastUpdateTime'', VNil)], None)"
    by (simp only: response.simps jane_Decode)
  show ?thesis
    unfolding Profile_fetch
    using fetch_run[OF profile_NewRequest[OF stub_client_simps(1)] stub_client_simps(2) s d, of 0]
    by (simp add: closes_after_def)
qed

text \<open>
  C9. Against a transport that answers \<open>GET\<close> on the URL of \<open>/Profile\<close> with
  status 200 and the body \<open>jane_body\<close>, \<open>Profile\<close> returns no error and a profile
  with first name Jane, last name Doe and height 170, every other field zero; the body
  of the response has then been closed twice.
\<close>

theorem Profile_Jane:
  "Profile lib
     (NewClient (mock_transport ''GET'' ''https://api.microsofthealth.net/v1/me/Profile''
                   \<lparr>StatusCode = 200, Body = jane_body\<rparr>)) n
     = Returned ((None,
         VStruct
          [(''FirstName'', VString ''Jane''), (''MiddleName'', VString []),
           (''LastName'', VString ''Doe''), (''Birthdate'', VNil),
           (''PostalCode'', VString []), (''Gender'', VString []),
           (''Height'', VInt 170), (''Weight'', VInt 0),
           (''PreferredLocale'', VString []), (''LastUpdateTime'', VNil)]), n + 2)"
proof -
  let ?c = "NewClient (mock_transport ''GET'' ''https://api.microsofthealth.net/v1/me/Profile''
                   \<lparr>StatusCode = 200, Body = jane_body\<rparr>)"
  have bu: "BaseUrl ?c = baseURL" by (simp add: NewClient_def)
  have us: "url_String (URL profile_request) = ''https://api.microsofthealth.net/v1/me/Profile''"
    using url_String_base_plain[OF path_facts(1)] by (simp add: profile_request_def BASE_URL_def)
  have me: "Method profile_request = ''GET''" by (simp add: profile_request_def)
  have cl: "Client ?c profile_request = Inr \<lparr>StatusCode = 200, Body = jane_body\<rparr>"
    by (simp add: NewClient_def mock_transport_def us me)
  have s: "200 \<le> StatusCode \<lparr>StatusCode = 200, Body = jane_body\<rparr>"
    "StatusCode \<lparr>StatusCode = 200, Body = jane_body\<rparr> \<le> 299" by simp_all
  have d: "Decode lib (Body \<lparr>StatusCode = 200, Body = jane_body\<rparr>) Profile_type
             (zero_value Profile_type)
           = (VStruct
               [(''FirstName'', VString ''Jane''), (''MiddleName'', VString []),
                (''LastName'', VString ''Doe''), (''Birthdate'', VNil),
                (''PostalCode'', VString []), (''Gender'', VString []),
                (''Height'', VInt 170), (''Weight'', VInt 0),
                (''PreferredLocale'', VString []), (''LastUpdateTime'', VNil)], None)"
    by (simp only: response.simps jane_Decode)
  show ?thesis
    unfolding Profile_fetch
    using fetch_run[OF profile_NewRequest[OF bu] cl s d, of n]
    by (simp add: closes_after_def)
qed


text \<open>
  C4, as the code has it. When an accessor returns an error and the call did not reach
  the decoding (the request could not be built, the transport failed, the status was
  outside 200 to 299, or the body does not start with a complete JSON value), its result
  is the zero value of its record type.
\<close>

theorem accessor_error_zero_value:
  "(\<not> reaches_decoding lib c (''/Summaries/'' @ period)
      \<and> PeriodSummaries lib c period n = Returned ((Some e, v1), n1) \<longrightarrow> v1 = zero_value Summaries_type)
   \<and> (\<not> reaches_decoding lib c ''/Profile''
      \<and> Profile lib c n = Returned ((Some e, v2), n2) \<longrightarrow> v2 = zero_value Profile_type)
   \<and> (\<not> reaches_decoding lib c ''/Devices''
      \<and> Devices lib c n = Returned ((v3, Some e), n3) \<longrightarrow> v3 = zero_value DeviceProfiles_type)
   \<and> (\<not> reaches_decoding lib c (''/Devices/'' @ ident)
      \<and> Device lib c ident n = Returned ((v4, Some e), n4) \<longrightarrow> v4 = zero_value Device_type)
   \<and> (\<not> reaches_decoding lib c ''/Activities''
      \<and> Activities lib c n = Returned ((v5, Some e), n5) \<longrightarrow> v5 = zero_value Activities_type)
   \<and> (\<not> reaches_decoding lib c (''/Activities/'' @ ident)
      \<and> Activity lib c ident n = Returned ((v6, Some e), n6) \<longrightarrow> v6 = zero_value Activity_type)"
  by (auto simp: PeriodSummaries_fetch Profile_fetch Devices_fetch Device_fetch Activities_fetch
                 Activity_fetch value_first_Returned
           dest: fetch_zero)

text \<open>The 404 of the specification: an error and the zero \<open>Device\<close>.\<close>

lemma devices_abc123: "''/Devices/'' @ ''abc123'' = ''/Devices/abc123''"
  by simp

lemma device_NewRequest:
  "\<exists>req. NewRequest stub_lib (stub_client 404 not_found_body) ''GET'' ''/Devices/abc123'' None = Inr req"
proof -
  obtain u where u: "url_Parse ''/Devices/abc123'' = Inr u" using path_parses(2) by blast
  show ?thesis
    using NewRequest_plain[OF path_facts(3) stub_client_simps(1) u path_facts(2)] by blast
qed

theorem accessor_error_zero_value_witness:
  "\<exists>e. Device stub_lib (stub_client 404 not_found_body) ''abc123'' 0
         = Returned ((zero_value Device_type, Some e), 1)"
proof -
  obtain req where
    r: "NewRequest stub_lib (stub_client 404 not_found_body) ''GET'' ''/Devices/abc123'' None = Inr req"
    using device_NewRequest by blast
  have nr: "\<not> reaches_decoding stub_lib (stub_client 404 not_found_body) (''/Devices/'' @ ''abc123'')"
    unfolding devices_abc123 by (simp add: reaches_decoding_def r stub_client_simps)
  have "\<exists>v e. Device stub_lib (stub_client 404 not_found_body) ''abc123'' 0 = Returned ((v, Some e), 1)"
    unfolding Device_fetch devices_abc123
    by (simp add: fetch_def r stub_client_simps value_first_def)
  then obtain v e where
    d: "Device stub_lib (stub_client 404 not_found_body) ''abc123'' 0 = Returned ((v, Some e), 1)"
    by blast
  note z = accessor_error_zero_value[where lib = stub_lib and c = "stub_client 404 not_found_body"
             and ident = "''abc123''" and n = 0 and e = e and ?v4.0 = v and ?n4.0 = 1]
  have "v = zero_value Device_type"
    by (rule z[THEN conjunct2, THEN conjunct2, THEN conjunct2, THEN conjunct1, THEN mp,
               OF conjI[OF nr d]])
  with d show ?thesis by blast
qed

text \<open>
  C4 as stated fails when a value of the body does not fit its field: decoding goes on
  past it, and \<open>Profile\<close> returns the error together with the fields it did store,
  here the first name.
\<close>

theorem accessor_error_zero_value_counterexample:
  "Profile stub_lib (stub_client 200 tall_body) 0
     = Returned ((Some (UnmarshalTypeError ''string''),
         VStruct
          [(''FirstName'', VString ''Jane''), (''MiddleName'', VString []),
           (''LastName'', VString []), (''Birthdate'', VNil),
           (''PostalCode'', VString []), (''Gender'', VString []),
           (''Height'', VInt 0), (''Weight'', VInt 0),
           (''PreferredLocale'', VString []), (''LastUpdateTime'', VNil)]), 1)
   \<and> zero_value Profile_type
     = (VStruct
          [(''FirstName'', VString []), (''MiddleName'', VString []),
           (''LastName'', VString []), (''Birthdate'', VNil),
           (''PostalCode'', VString []), (''Gender'', VString []),
           (''Height'', VInt 0), (''Weight'', VInt 0),
           (''PreferredLocale'', VString []), (''LastUpdateTime'', VNil)] :: string gval)"
proof -
  have s: "200 \<le> StatusCode \<lparr>StatusCode = 200, Body = tall_body\<rparr>"
    "StatusCode \<lparr>StatusCode = 200, Body = tall_body\<rparr> \<le> 299" by simp_all
  have d: "Decode stub_lib (Body \<lparr>StatusCode = 200, Body = tall_body\<rparr>) Profile_type
             (zero_value Profile_type)
           = (VStruct
               [(''FirstName'', VString ''Jane''), (''MiddleName'', VString []),
                (''LastName'', VString []), (''Birthdate'', VNil),
                (''PostalCode'', VString []), (''Gender'', VString []),
                (''Height'', VInt 0), (''Weight'', VInt 0),
                (''PreferredLocale'', VString []), (''LastUpdateTime'', VNil)],
              Some (UnmarshalTypeError ''string''))"
    by (simp only: response.simps tall_Decode)
  have "Profile stub_lib (stub_client 200 tall_body) 0
     = Returned ((Some (UnmarshalTypeError ''string''),
         VStruct
          [(''FirstName'', VString ''Jane''), (''MiddleName'', VString []),
           (''LastName'', VString []), (''Birthdate'', VNil),
           (''PostalCode'', VString []), (''Gender'', VString []),
           (''Height'', VInt 0), (''Weight'', VInt 0),
           (''PreferredLocale'', VString []), (''LastUpdateTime'', VNil)]), 1)"
    unfolding Profile_fetch
    using fetch_run[OF profile_NewRequest[OF stub_client_simps(1)] stub_client_simps(2) s d, of 0]
    by (simp add: closes_after_def)
  then show ?thesis
    by (simp only: zero_Profile simp_thms)
qed

text \<open>
  C10. \<open>TotalRestlessSleepDuration\<close> and \<open>TotalRestfulSleepDuration\<close> carry the same
  JSON name, so encoding/json takes neither as a JSON field. Whatever the response
  holds, under \<open>totalRestfulSleepDuration\<close> or any other key, the
  \<open>TotalRestfulSleepDuration\<close> of the \<open>Activity\<close> returned is the empty string it starts
  with: it is never filled from that key (and from no other either).
\<close>

theorem Activity_restful_never_decoded:
  assumes "Activity lib c ident n = Returned ((v, e), n')"
  shows "get_field v ''TotalRestfulSleepDuration'' = Some (VString [])"
proof -
  from assms have f: "fetch lib c (''/Activities/'' @ ident) Activity_type n = Returned ((e, v), n')"
    by (simp add: Activity_fetch value_first_Returned)
  from fetch_value[OF f] show ?thesis
  proof
    assume "v = zero_value Activity_type"
    then show ?thesis by (simp add: zero_restful)
  next
    assume "\<exists>body. v = fst (Decode lib body Activity_type (zero_value Activity_type))"
    then obtain body where
      v: "v = fst (Decode lib body (TStruct (struct_fields Activity_type))
                     (VStruct (zero_fields (struct_fields Activity_type))))"
      using Activity_type_struct zero_Activity_struct by metis
    have "get_field v ''TotalRestfulSleepDuration''
            = map_of (zero_fields (struct_fields Activity_type)) ''TotalRestfulSleepDuration''"
      unfolding v by (rule Decode_struct_frame[OF restful_not_json])
    also have "\<dots> = get_field (zero_value Activity_type) ''TotalRestfulSleepDuration''"
      by (simp add: zero_Activity_struct get_field_def)
    finally show ?thesis by (simp add: zero_restful)
  qed
qed

theorem Activity_restful_never_decoded_witness:
  "\<exists>v e. Activity stub_lib (stub_client 200 sleep_body) ''a1'' 0 = Returned ((v, e), closes_after 0 e)
         \<and> get_field v ''TotalRestfulSleepDuration'' = Some (VString [])"
proof -
  obtain u where u: "url_Parse ''/Activities/a1'' = Inr u" using path_parses(3) by blast
  have r: "NewRequest stub_lib (stub_client 200 sleep_body) ''GET'' (''/Activities/'' @ ''a1'') None
             = Inr \<lparr>Method = ''GET'', URL = base_with ''/Activities/a1'',
                     Header = [''User-Agent'' \<mapsto> [USER_AGENT]],
                     ReqBody = [], ContentLength = 0, ReqHost = ''api.microsofthealth.net''\<rparr>"
    using NewRequest_plain[OF path_facts(4) stub_client_simps(1) u path_facts(2)] by simp
  from fetch_closes[OF r stub_client_simps(2), of Activity_type 0]
  obtain e v where
    f: "fetch stub_lib (stub_client 200 sleep_body) (''/Activities/'' @ ''a1'') Activity_type 0
          = Returned ((e, v), closes_after 0 e)"
    by blast
  have a: "Activity stub_lib (stub_client 200 sleep_body) ''a1'' 0 = Returned ((v, e), closes_after 0 e)"
    unfolding Activity_fetch f by (simp add: value_first_def)
  from Activity_restful_never_decoded[OF a] a show ?thesis by blast
qed

end
